theory Spec2Isabelle
  imports Main
begin

section \<open>The peer manager of the Iron Fish network layer\<close>

text \<open>
  The development follows \<^verbatim>\<open>ironfish/src/network/peers/peerManager.ts\<close>. The class
  \<^verbatim>\<open>PeerManager\<close> becomes a record of its fields together with a store of the
  \<^verbatim>\<open>Peer\<close> and \<^verbatim>\<open>Connection\<close> objects it refers to (objects are
  references into the store, so that \<^verbatim>\<open>===\<close> is equality of references and a
  mutation through one reference is seen through every other). Every method becomes a
  function from the manager's state to its new state. What a method does to the outside
  (frames written to a connection, events emitted, connections closed) is appended to
  the \<open>trace\<close> of the state, in program order.
\<close>

subsection \<open>Identities, connections, messages\<close>

type_synonym Identity = string
type_synonym peer_ref = nat
type_synonym conn_ref = nat
type_synonym SignalData = string

datatype ConnectionType = WebSocket | WebRtc

datatype ConnectionDirection = Inbound | Outbound

datatype ConnectionState =
    CONNECTING
  | WAITING_FOR_IDENTITY
  | REQUEST_SIGNALING
  | SIGNALING
  | CONNECTED Identity
  | DISCONNECTED

datatype PeerStateType = PEER_DISCONNECTED | PEER_CONNECTING | PEER_CONNECTED

datatype DisconnectingReason = ShuttingDown | Congested

record Version =
  agent :: string
  protocolVersion :: nat
  client :: string

record Url =
  urlProtocol :: "string option"
  urlHostname :: "string option"
  urlPort :: "nat option"

record PeerListEntry =
  entryIdentity :: Identity
  entryName :: "string option"
  entryAddress :: "string option"
  entryPort :: "nat option"

text \<open>
  The messages of \<^verbatim>\<open>../messages\<close>, one constructor for each type guard
  (\<^verbatim>\<open>isDisconnectingMessage\<close>, \<^verbatim>\<open>isIdentify\<close>, \<^verbatim>\<open>isSignalRequest\<close>,
  \<^verbatim>\<open>isSignal\<close>, \<^verbatim>\<open>isPeerList\<close>); \<open>Application\<close> is any other message,
  with its type tag. The arguments are the payload fields in the order
  source, destination, then the rest.
\<close>

datatype message =
    Disconnecting Identity "Identity option" DisconnectingReason int
  | Identify string string "nat option" "string option" "bool option"
  | SignalRequest Identity Identity
  | Signal Identity Identity string string
  | PeerList "PeerListEntry list"
  | Application string

datatype reason =
    HostnameNotParseable string
  | IdentityFormat string
  | VersionNotCompatible string
  | NameTooLong nat
  | ClosingOwnIdentity ConnectionType
  | ClosingDuplicate ConnectionType ConnectionDirection
  | ReplacingDuplicate ConnectionType
  | ToldToDisconnect int
  | FailedToDecrypt
  | FailedToDecode
  | IllegalTransition ConnectionState ConnectionState

datatype error = NetworkError reason | Error reason

datatype event =
    OnConnect peer_ref
  | OnDisconnect peer_ref
  | OnMessage peer_ref Identity message
  | OnKnownPeersChanged peer_ref
  | OnConnectedPeersChanged

datatype effect =
    ConnSend conn_ref message
  | ConnClose conn_ref "error option"
  | ConnSignal conn_ref SignalData
  | PeerSend peer_ref message
  | PeerClose peer_ref "error option"
  | PeerDispose peer_ref
  | Dial string "nat option"
  | Emit event
  | Throw error

datatype timer = BroadcastPeerListTimer | DisposePeersTimer

subsection \<open>The objects of the store\<close>

record ConnectionRetry =
  neverRetry :: bool
  cooldownUntil :: int
  consecutiveFailures :: nat

record Connection =
  ctype :: ConnectionType
  direction :: ConnectionDirection
  cstate :: ConnectionState
  initiator :: bool
  hostname :: "string option"
  cport :: "nat option"
  identifyOnWaiting :: bool
  signalBroker :: "peer_ref option"

record Peer =
  identity :: "Identity option"
  name :: "string option"
  address :: "string option"
  port :: "nat option"
  version :: "Version option"
  isWorker :: bool
  isWhitelisted :: bool
  localRequestedDisconnectUntil :: "int option"
  localRequestedDisconnectReason :: "DisconnectingReason option"
  peerRequestedDisconnectUntil :: "int option"
  peerRequestedDisconnectReason :: "DisconnectingReason option"
  knownPeers :: "(Identity \<times> peer_ref) list"
  webSocket :: "conn_ref option"
  webRtc :: "conn_ref option"
  retries :: "ConnectionType \<Rightarrow> ConnectionDirection \<Rightarrow> ConnectionRetry"
  identifyWhenConnected :: bool
  subscribed :: bool

record LocalPeer =
  publicIdentity :: Identity
  identifyMessage :: message
  localVersion :: Version
  localIsWorker :: bool
  broadcastWorkers :: bool

text \<open>
  The functions that \<^verbatim>\<open>peerManager.ts\<close> imports from modules outside the sources at
  hand (\<^verbatim>\<open>../identity\<close>, \<^verbatim>\<open>../version\<close>, \<^verbatim>\<open>../utils\<close>, the boxing of the
  local peer, \<^verbatim>\<open>JSON.parse\<close>, the back-off of the retry policy) are parameters of the
  model: every function below takes them as its first argument, and the theorems hold
  for every choice of them unless a hypothesis says otherwise.
\<close>

record Imports =
  isIdentity :: "string \<Rightarrow> bool"
  canInitiateWebRTC :: "Identity \<Rightarrow> Identity \<Rightarrow> bool"
  canKeepDuplicateConnection :: "Identity \<Rightarrow> Identity \<Rightarrow> bool"
  parseVersion :: "string \<Rightarrow> Version"
  parseUrl :: "string \<Rightarrow> Url"
  unboxMessage :: "string \<Rightarrow> string \<Rightarrow> Identity \<Rightarrow> string option"
  jsonParse :: "string \<Rightarrow> SignalData option"
  backoff :: "nat \<Rightarrow> int"

record PeerManager =
  localPeer :: LocalPeer
  identifiedPeers :: "(Identity \<times> peer_ref) list"
  peers :: "peer_ref list"
  maxPeers :: nat
  targetPeers :: nat
  broadcastPeerListHandle :: "(timer \<times> nat) option"
  disposePeersHandle :: "(timer \<times> nat) option"
  peerStore :: "peer_ref \<Rightarrow> Peer"
  connStore :: "conn_ref \<Rightarrow> Connection"
  nextPeer :: peer_ref
  nextConn :: conn_ref
  trace :: "effect list"

subsection \<open>Insertion-ordered maps\<close>

text \<open>
  A JavaScript \<^verbatim>\<open>Map\<close> iterates in insertion order; \<^verbatim>\<open>set\<close> on a key that is
  present keeps its place. It is an association list with distinct keys.
\<close>

fun mapSet :: "'k \<Rightarrow> 'v \<Rightarrow> ('k \<times> 'v) list \<Rightarrow> ('k \<times> 'v) list" where
  "mapSet k v [] = [(k, v)]"
| "mapSet k v ((k', v') # m) = (if k = k' then (k, v) # m else (k', v') # mapSet k v m)"

definition mapGet :: "('k \<times> 'v) list \<Rightarrow> 'k \<Rightarrow> 'v option" where
  "mapGet m k = map_of m k"

definition mapHas :: "('k \<times> 'v) list \<Rightarrow> 'k \<Rightarrow> bool" where
  "mapHas m k = (map_of m k \<noteq> None)"

definition mapDelete :: "'k \<Rightarrow> ('k \<times> 'v) list \<Rightarrow> ('k \<times> 'v) list" where
  "mapDelete k m = filter (\<lambda>e. fst e \<noteq> k) m"

definition mapValues :: "('k \<times> 'v) list \<Rightarrow> 'v list" where
  "mapValues m = map snd m"

text \<open>JavaScript truthiness of a \<^verbatim>\<open>string | null\<close>: neither null nor empty.\<close>

definition truthy :: "string option \<Rightarrow> bool" where
  "truthy x = (case x of None \<Rightarrow> False | Some v \<Rightarrow> v \<noteq> [])"

text \<open>\<^verbatim>\<open>x || null\<close> on an optional string, and on an optional number.\<close>

definition orNull :: "string option \<Rightarrow> string option" where
  "orNull x = (if truthy x then x else None)"

definition orUndefined :: "nat option \<Rightarrow> nat option" where
  "orUndefined x = (if x = Some 0 then None else x)"


subsection \<open>Connection and Peer\<close>

text \<open>
  The classes \<^verbatim>\<open>Connection\<close> and \<^verbatim>\<open>Peer\<close> are not among the sources at hand;
  the operations of this subsection are modelled from the specification (its sections
  3, 4.B, 4.C and 4.D), each under a comment that says so. The state of a peer is not
  stored: it is the join of the states of its connections, and a connection that has
  reached \<open>DISCONNECTED\<close> no longer occupies its slot (invariant I4 of the
  specification: a \<open>DISCONNECTED\<close> peer has both slots empty).

  A peer and a connection announce their changes on event buses. The subscriptions that
  the manager installs (\<^verbatim>\<open>getOrCreatePeer\<close>, lines 607 to 637) are the function
  \<open>onPeerStateChanged\<close> below, an entry point of the manager like \<open>handleMessage\<close>;
  the operations of this subsection change the store and the trace and leave the
  delivery of \<^verbatim>\<open>onStateChanged\<close> to the event bus.
\<close>

definition updPeer :: "PeerManager \<Rightarrow> peer_ref \<Rightarrow> (Peer \<Rightarrow> Peer) \<Rightarrow> PeerManager" where
  "updPeer s p f = s\<lparr>peerStore := (peerStore s)(p := f (peerStore s p))\<rparr>"

definition updConn :: "PeerManager \<Rightarrow> conn_ref \<Rightarrow> (Connection \<Rightarrow> Connection) \<Rightarrow> PeerManager" where
  "updConn s c f = s\<lparr>connStore := (connStore s)(c := f (connStore s c))\<rparr>"

definition effects :: "PeerManager \<Rightarrow> effect list \<Rightarrow> PeerManager" where
  "effects s es = s\<lparr>trace := trace s @ es\<rparr>"

definition isConnectedState :: "ConnectionState \<Rightarrow> bool" where
  "isConnectedState st = (case st of CONNECTED i \<Rightarrow> True | _ \<Rightarrow> False)"

text \<open>Modelled from the spec: the occupant of a connection slot, none once it is
  \<open>DISCONNECTED\<close>.\<close>

definition liveConn :: "PeerManager \<Rightarrow> conn_ref option \<Rightarrow> conn_ref option" where
  "liveConn s slot =
     (case slot of
        None \<Rightarrow> None
      | Some c \<Rightarrow> if cstate (connStore s c) = DISCONNECTED then None else Some c)"

text \<open>Modelled from the spec: \<^verbatim>\<open>peer.state.connections.webSocket\<close> and
  \<^verbatim>\<open>peer.state.connections.webRtc\<close> of the class \<^verbatim>\<open>Peer\<close>, the live occupants of the
  two slots.\<close>

definition connections_webSocket :: "PeerManager \<Rightarrow> peer_ref \<Rightarrow> conn_ref option" where
  "connections_webSocket s p = liveConn s (webSocket (peerStore s p))"

definition connections_webRtc :: "PeerManager \<Rightarrow> peer_ref \<Rightarrow> conn_ref option" where
  "connections_webRtc s p = liveConn s (webRtc (peerStore s p))"

definition slotConnected :: "PeerManager \<Rightarrow> conn_ref option \<Rightarrow> bool" where
  "slotConnected s slot =
     (case slot of None \<Rightarrow> False | Some c \<Rightarrow> isConnectedState (cstate (connStore s c)))"

text \<open>Modelled from the spec: \<^verbatim>\<open>peer.state.type\<close>. \<open>DISCONNECTED\<close>: no live
  connection; \<open>CONNECTING\<close>: at least one connection, none \<open>CONNECTED\<close>;
  \<open>CONNECTED\<close>: at least one connection is \<open>CONNECTED\<close>.\<close>

definition state_type :: "PeerManager \<Rightarrow> peer_ref \<Rightarrow> PeerStateType" where
  "state_type s p =
     (if connections_webSocket s p = None \<and> connections_webRtc s p = None
      then PEER_DISCONNECTED
      else if slotConnected s (connections_webSocket s p) \<or>
              slotConnected s (connections_webRtc s p)
      then PEER_CONNECTED
      else PEER_CONNECTING)"

text \<open>Modelled from the spec: \<^verbatim>\<open>peer.state.identity\<close> of the class \<^verbatim>\<open>Peer\<close>, the
  identity of the record, kept when the peer disconnects.\<close>

definition state_identity :: "PeerManager \<Rightarrow> peer_ref \<Rightarrow> Identity option" where
  "state_identity s p = identity (peerStore s p)"

text \<open>An identity that has been tested to be present.\<close>

definition idOf :: "PeerManager \<Rightarrow> peer_ref \<Rightarrow> Identity" where
  "idOf s p = (case state_identity s p of None \<Rightarrow> [] | Some i \<Rightarrow> i)"

text \<open>Modelled from the spec: the transition table of a connection (section 3).\<close>

fun validTransition :: "ConnectionState \<Rightarrow> ConnectionState \<Rightarrow> bool" where
  "validTransition CONNECTING WAITING_FOR_IDENTITY = True"
| "validTransition CONNECTING SIGNALING = True"
| "validTransition CONNECTING REQUEST_SIGNALING = True"
| "validTransition CONNECTING DISCONNECTED = True"
| "validTransition REQUEST_SIGNALING SIGNALING = True"
| "validTransition REQUEST_SIGNALING DISCONNECTED = True"
| "validTransition SIGNALING WAITING_FOR_IDENTITY = True"
| "validTransition SIGNALING DISCONNECTED = True"
| "validTransition WAITING_FOR_IDENTITY (CONNECTED i) = True"
| "validTransition WAITING_FOR_IDENTITY DISCONNECTED = True"
| "validTransition (CONNECTED i) DISCONNECTED = True"
| "validTransition a b = False"

text \<open>Modelled from the spec: \<^verbatim>\<open>connection.close(error)\<close> forces the connection to
  \<open>DISCONNECTED\<close>.\<close>

definition connection_close :: "PeerManager \<Rightarrow> conn_ref \<Rightarrow> error option \<Rightarrow> PeerManager" where
  "connection_close s c err =
     effects (updConn s c (\<lambda>x. x\<lparr>cstate := DISCONNECTED\<rparr>)) [ConnClose c err]"

text \<open>The peers of the manager's list that hold a connection in one of their slots.\<close>

definition holders :: "PeerManager \<Rightarrow> conn_ref \<Rightarrow> peer_ref list" where
  "holders s c =
     filter (\<lambda>p. webSocket (peerStore s p) = Some c \<or> webRtc (peerStore s p) = Some c) (peers s)"

text \<open>Modelled from the spec: \<^verbatim>\<open>connection.setState(state)\<close> enforces the transition
  table, an illegal transition is a fatal error; when a connection becomes
  \<open>CONNECTED\<close> the peer that holds it takes the identity of the handshake.\<close>

definition connection_setState :: "PeerManager \<Rightarrow> conn_ref \<Rightarrow> ConnectionState \<Rightarrow> PeerManager" where
  "connection_setState s c st =
     (if validTransition (cstate (connStore s c)) st
      then (let s1 = updConn s c (\<lambda>x. x\<lparr>cstate := st\<rparr>)
            in case st of
                 CONNECTED i \<Rightarrow> fold (\<lambda>p t. updPeer t p (\<lambda>x. x\<lparr>identity := Some i\<rparr>)) (holders s1 c) s1
               | _ \<Rightarrow> s1)
      else effects s [Throw (Error (IllegalTransition (cstate (connStore s c)) st))])"

text \<open>Modelled from the spec: \<^verbatim>\<open>connection.send(frame)\<close> admits the frame iff the state
  is \<open>WAITING_FOR_IDENTITY\<close> or \<open>CONNECTED\<close>, and drops it silently otherwise.\<close>

definition connection_send :: "PeerManager \<Rightarrow> conn_ref \<Rightarrow> message \<Rightarrow> PeerManager" where
  "connection_send s c m =
     (if cstate (connStore s c) = WAITING_FOR_IDENTITY \<or> isConnectedState (cstate (connStore s c))
      then effects s [ConnSend c m]
      else s)"

text \<open>Modelled from the spec: \<^verbatim>\<open>connection.signal(data)\<close> of the class
  \<^verbatim>\<open>WebRtcConnection\<close>, the inlet for the signalling data of the remote end.\<close>

definition connection_signal :: "PeerManager \<Rightarrow> conn_ref \<Rightarrow> SignalData \<Rightarrow> PeerManager" where
  "connection_signal s c d = effects s [ConnSignal c d]"

text \<open>Modelled from the spec: \<^verbatim>\<open>peer.send(message)\<close> of the class \<^verbatim>\<open>Peer\<close>. The
  message is handed to the peer, which drops it when it has no session to carry it; the
  trace records the hand-over.\<close>

definition peer_send :: "PeerManager \<Rightarrow> peer_ref \<Rightarrow> message \<Rightarrow> PeerManager" where
  "peer_send s p m = effects s [PeerSend p m]"

text \<open>Modelled from the spec: \<^verbatim>\<open>peer.close(error)\<close> closes every live connection.\<close>

definition peer_close :: "PeerManager \<Rightarrow> peer_ref \<Rightarrow> error option \<Rightarrow> PeerManager" where
  "peer_close s p err =
     (let s0 = effects s [PeerClose p err];
          s1 = (case connections_webRtc s0 p of
                  None \<Rightarrow> s0 | Some c \<Rightarrow> connection_close s0 c err)
      in case connections_webSocket s1 p of
           None \<Rightarrow> s1 | Some c \<Rightarrow> connection_close s1 c err)"

text \<open>Modelled from the spec: \<^verbatim>\<open>peer.removeConnection(connection)\<close> of the class
  \<^verbatim>\<open>Peer\<close>. The connection leaves the slot it is in.\<close>

definition peer_removeConnection :: "PeerManager \<Rightarrow> peer_ref \<Rightarrow> conn_ref \<Rightarrow> PeerManager" where
  "peer_removeConnection s p c =
     updPeer s p (\<lambda>x. x\<lparr>webSocket := (if webSocket x = Some c then None else webSocket x),
                        webRtc := (if webRtc x = Some c then None else webRtc x)\<rparr>)"

text \<open>Modelled from the spec: \<^verbatim>\<open>setWebSocketConnection\<close> and \<^verbatim>\<open>setWebRtcConnection\<close>
  close the connection that was installed in the slot before.\<close>

definition peer_setWebSocketConnection :: "PeerManager \<Rightarrow> peer_ref \<Rightarrow> conn_ref \<Rightarrow> PeerManager" where
  "peer_setWebSocketConnection s p c =
     (let s1 = (case connections_webSocket s p of
                  None \<Rightarrow> s
                | Some old \<Rightarrow> if old = c then s else connection_close s old None)
      in updPeer s1 p (\<lambda>x. x\<lparr>webSocket := Some c\<rparr>))"

definition peer_setWebRtcConnection :: "PeerManager \<Rightarrow> peer_ref \<Rightarrow> conn_ref \<Rightarrow> PeerManager" where
  "peer_setWebRtcConnection s p c =
     (let s1 = (case connections_webRtc s p of
                  None \<Rightarrow> s
                | Some old \<Rightarrow> if old = c then s else connection_close s old None)
      in updPeer s1 p (\<lambda>x. x\<lparr>webRtc := Some c\<rparr>))"

text \<open>Modelled from the spec: \<^verbatim>\<open>peer.setWebSocketAddress(address, port)\<close> of the class
  \<^verbatim>\<open>Peer\<close> sets the fields \<^verbatim>\<open>address\<close> and \<^verbatim>\<open>port\<close> of the record.\<close>

definition peer_setWebSocketAddress ::
  "PeerManager \<Rightarrow> peer_ref \<Rightarrow> string option \<Rightarrow> nat option \<Rightarrow> PeerManager" where
  "peer_setWebSocketAddress s p a n = updPeer s p (\<lambda>x. x\<lparr>address := a, port := n\<rparr>)"

text \<open>Modelled from the spec: \<^verbatim>\<open>peer.getWebSocketAddress()\<close> of the class \<^verbatim>\<open>Peer\<close>,
  the configured address to dial, falsy without a host.\<close>

definition peer_getWebSocketAddress :: "PeerManager \<Rightarrow> peer_ref \<Rightarrow> (string \<times> nat option) option" where
  "peer_getWebSocketAddress s p =
     (case address (peerStore s p) of
        None \<Rightarrow> None
      | Some a \<Rightarrow> if a = [] then None else Some (a, port (peerStore s p)))"

text \<open>Modelled from the spec: \<^verbatim>\<open>peer.dispose()\<close> clears the neighbour edges of the peer
  and releases its event subscriptions.\<close>

definition peer_dispose :: "PeerManager \<Rightarrow> peer_ref \<Rightarrow> PeerManager" where
  "peer_dispose s p =
     effects (updPeer s p (\<lambda>x. x\<lparr>knownPeers := [], identifyWhenConnected := False,
                                 subscribed := False\<rparr>)) [PeerDispose p]"

text \<open>Modelled from the spec: \<^verbatim>\<open>peer.onKnownPeersChanged.emit()\<close> of the class
  \<^verbatim>\<open>Peer\<close>, which the subscription of line 623 turns into the manager's
  \<^verbatim>\<open>onKnownPeersChanged.emit(peer)\<close> until the peer is disposed of.\<close>

definition peer_emitKnownPeersChanged :: "PeerManager \<Rightarrow> peer_ref \<Rightarrow> PeerManager" where
  "peer_emitKnownPeersChanged s p =
     (if subscribed (peerStore s p) then effects s [Emit (OnKnownPeersChanged p)] else s)"

text \<open>Modelled from the spec: the retry policy (section 4.C), one state for each
  transport and direction.\<close>

definition getConnectionRetry ::
  "PeerManager \<Rightarrow> peer_ref \<Rightarrow> ConnectionType \<Rightarrow> ConnectionDirection \<Rightarrow> ConnectionRetry" where
  "getConnectionRetry s p t d = retries (peerStore s p) t d"

definition updRetry ::
  "PeerManager \<Rightarrow> peer_ref \<Rightarrow> ConnectionType \<Rightarrow> ConnectionDirection \<Rightarrow>
   (ConnectionRetry \<Rightarrow> ConnectionRetry) \<Rightarrow> PeerManager" where
  "updRetry s p t d f =
     updPeer s p (\<lambda>x. x\<lparr>retries := (retries x)(t := (retries x t)(d := f (retries x t d)))\<rparr>)"

definition neverRetryConnecting ::
  "PeerManager \<Rightarrow> peer_ref \<Rightarrow> ConnectionType \<Rightarrow> ConnectionDirection \<Rightarrow> PeerManager" where
  "neverRetryConnecting s p t d = updRetry s p t d (\<lambda>r. r\<lparr>neverRetry := True\<rparr>)"

definition willNeverRetryConnecting :: "ConnectionRetry \<Rightarrow> bool" where
  "willNeverRetryConnecting r = neverRetry r"

definition canConnect :: "int \<Rightarrow> ConnectionRetry \<Rightarrow> bool" where
  "canConnect now r = (\<not> neverRetry r \<and> cooldownUntil r \<le> now)"

definition failedConnection ::
  "Imports \<Rightarrow> PeerManager \<Rightarrow> int \<Rightarrow> peer_ref \<Rightarrow> ConnectionType \<Rightarrow> ConnectionDirection \<Rightarrow>
   PeerManager" where
  "failedConnection E s now p t d =
     updRetry s p t d
       (\<lambda>r. if isWhitelisted (peerStore s p)
            then r\<lparr>cooldownUntil := now\<rparr>
            else r\<lparr>consecutiveFailures := Suc (consecutiveFailures r),
                   cooldownUntil := now + backoff E (Suc (consecutiveFailures r))\<rparr>)"

text \<open>Modelled from the spec: \<^verbatim>\<open>new Peer(identity)\<close>, a \<open>DISCONNECTED\<close> record with
  the identity given and nothing else.\<close>

definition freshPeer :: "Identity option \<Rightarrow> Peer" where
  "freshPeer i =
     \<lparr>identity = i, name = None, address = None, port = None, version = None,
      isWorker = False, isWhitelisted = False,
      localRequestedDisconnectUntil = None, localRequestedDisconnectReason = None,
      peerRequestedDisconnectUntil = None, peerRequestedDisconnectReason = None,
      knownPeers = [], webSocket = None, webRtc = None,
      retries = (\<lambda>t d. \<lparr>neverRetry = False, cooldownUntil = 0, consecutiveFailures = 0\<rparr>),
      identifyWhenConnected = False, subscribed = False\<rparr>"

subsection \<open>The peer manager: queries and disposal\<close>

definition getPeersWithConnection :: "PeerManager \<Rightarrow> peer_ref list" where
  "getPeersWithConnection s = filter (\<lambda>p. state_type s p \<noteq> PEER_DISCONNECTED) (peers s)"

definition getConnectedPeers :: "PeerManager \<Rightarrow> peer_ref list" where
  "getConnectedPeers s =
     filter (\<lambda>p. state_type s p = PEER_CONNECTED) (mapValues (identifiedPeers s))"

definition shouldRejectDisconnectedPeers :: "PeerManager \<Rightarrow> bool" where
  "shouldRejectDisconnectedPeers s = (maxPeers s \<le> length (getPeersWithConnection s))"

definition getPeer :: "PeerManager \<Rightarrow> Identity \<Rightarrow> peer_ref option" where
  "getPeer s i = mapGet (identifiedPeers s) i"

text \<open>The three conditions of \<^verbatim>\<open>tryDisposePeer\<close> (lines 722 to 731).\<close>

definition hasAConnectedPeer :: "PeerManager \<Rightarrow> peer_ref \<Rightarrow> bool" where
  "hasAConnectedPeer s p =
     list_ex (\<lambda>q. state_type s q = PEER_CONNECTED) (mapValues (knownPeers (peerStore s p)))"

definition tryDisposePeer :: "PeerManager \<Rightarrow> peer_ref \<Rightarrow> bool \<times> PeerManager" where
  "tryDisposePeer s p =
     (if state_type s p = PEER_DISCONNECTED \<and> \<not> hasAConnectedPeer s p \<and>
         willNeverRetryConnecting (getConnectionRetry s p WebSocket Outbound)
      then (let s1 = peer_dispose s p;
                s2 = (case state_identity s1 p of
                        None \<Rightarrow> s1
                      | Some i \<Rightarrow>
                          if i \<noteq> [] \<and> mapGet (identifiedPeers s1) i = Some p
                          then s1\<lparr>identifiedPeers := mapDelete i (identifiedPeers s1)\<rparr>
                          else s1)
            in (True, s2\<lparr>peers := filter (\<lambda>q. q \<noteq> p) (peers s2)\<rparr>))
      else (False, s))"

definition disposePeers :: "PeerManager \<Rightarrow> PeerManager" where
  "disposePeers s = fold (\<lambda>p t. snd (tryDisposePeer t p)) (peers s) s"


subsection \<open>The peer manager: creating and identifying peers\<close>

text \<open>\<^verbatim>\<open>updateIdentifiedPeerMap\<close> (lines 506 to 561). A peer whose state is
  \<open>DISCONNECTED\<close> has no connections to read; the model reads an empty slot there.\<close>

definition updateIdentifiedPeerMap :: "PeerManager \<Rightarrow> peer_ref \<Rightarrow> PeerManager" where
  "updateIdentifiedPeerMap s peer =
     (case state_identity s peer of
        None \<Rightarrow> s
      | Some i \<Rightarrow>
          (case mapGet (identifiedPeers s) i of
             None \<Rightarrow> s\<lparr>identifiedPeers := mapSet i peer (identifiedPeers s)\<rparr>
           | Some existingPeer \<Rightarrow>
               if peer = existingPeer
               then s\<lparr>identifiedPeers := mapSet i peer (identifiedPeers s)\<rparr>
               else if state_type s peer = PEER_DISCONNECTED
               then snd (tryDisposePeer (peer_close s peer None) peer)
               else
                 (let s1 =
                        (case connections_webRtc s peer of
                           None \<Rightarrow> s
                         | Some c \<Rightarrow>
                             if isConnectedState (cstate (connStore s c))
                             then (let sa =
                                         (case connections_webRtc s existingPeer of
                                            None \<Rightarrow> s
                                          | Some old \<Rightarrow>
                                              connection_close
                                                (peer_removeConnection s existingPeer old) old
                                                (Some (NetworkError (ReplacingDuplicate WebRtc))));
                                       sb = peer_setWebRtcConnection sa existingPeer c
                                   in peer_removeConnection sb peer c)
                             else s);
                      s2 =
                        (case connections_webSocket s1 peer of
                           None \<Rightarrow> s1
                         | Some c \<Rightarrow>
                             if isConnectedState (cstate (connStore s1 c))
                             then (let sa =
                                         (case connections_webSocket s1 existingPeer of
                                            None \<Rightarrow> s1
                                          | Some old \<Rightarrow>
                                              connection_close
                                                (peer_removeConnection s1 existingPeer old) old
                                                (Some (NetworkError (ReplacingDuplicate WebSocket))));
                                       sb = peer_setWebSocketConnection sa existingPeer c
                                   in peer_removeConnection sb peer c)
                             else s1);
                      s3 = neverRetryConnecting s2 peer WebSocket Outbound
                  in snd (tryDisposePeer s3 peer))))"

text \<open>\<^verbatim>\<open>getOrCreatePeer\<close> (lines 589 to 640). The subscriptions it installs on the new
  peer are the two flags of the peer record; their handlers are \<open>onPeerStateChanged\<close>
  and \<open>peer_emitKnownPeersChanged\<close>.\<close>

definition getOrCreatePeer :: "PeerManager \<Rightarrow> Identity option \<Rightarrow> peer_ref \<times> PeerManager" where
  "getOrCreatePeer s i =
     (case (case i of None \<Rightarrow> None | Some j \<Rightarrow> mapGet (identifiedPeers s) j) of
        Some identifiedPeer \<Rightarrow> (identifiedPeer, s)
      | None \<Rightarrow>
          (let peer = nextPeer s;
               s1 = s\<lparr>peerStore := (peerStore s)
                          (peer := (freshPeer i)\<lparr>identifyWhenConnected := (i = None),
                                                subscribed := True\<rparr>),
                      nextPeer := Suc peer,
                      peers := peers s @ [peer]\<rparr>
           in (peer, if i = None then s1 else updateIdentifiedPeerMap s1 peer)))"

text \<open>The handlers that \<^verbatim>\<open>getOrCreatePeer\<close> subscribes to \<^verbatim>\<open>peer.onStateChanged\<close>
  (lines 607 to 613 and 627 to 637), run when the state of the peer has changed from
  \<open>prevState\<close>.\<close>

definition onPeerStateChanged :: "PeerManager \<Rightarrow> peer_ref \<Rightarrow> PeerStateType \<Rightarrow> PeerManager" where
  "onPeerStateChanged s peer prevState =
     (let s1 = (if identifyWhenConnected (peerStore s peer) \<and> state_type s peer = PEER_CONNECTED
                then updPeer (updateIdentifiedPeerMap s peer) peer
                       (\<lambda>x. x\<lparr>identifyWhenConnected := False\<rparr>)
                else s);
          s2 = (if subscribed (peerStore s1 peer) \<and> prevState \<noteq> PEER_CONNECTED \<and>
                   state_type s1 peer = PEER_CONNECTED
                then effects s1 [Emit (OnConnect peer), Emit OnConnectedPeersChanged]
                else s1)
      in if subscribed (peerStore s2 peer) \<and> prevState = PEER_CONNECTED \<and>
            state_type s2 peer \<noteq> PEER_CONNECTED
         then snd (tryDisposePeer
                     (effects s2 [Emit (OnDisconnect peer), Emit OnConnectedPeersChanged]) peer)
         else s2)"

subsection \<open>The peer manager: sending and the periodic tasks\<close>

definition sendTo :: "PeerManager \<Rightarrow> peer_ref \<Rightarrow> message \<Rightarrow> PeerManager" where
  "sendTo s peer m = peer_send s peer m"

definition broadcast :: "PeerManager \<Rightarrow> message \<Rightarrow> PeerManager" where
  "broadcast s m =
     fold (\<lambda>peer t. if state_type t peer = PEER_CONNECTED then peer_send t peer m else t)
       (mapValues (identifiedPeers s)) s"

text \<open>The entry of the peer list for a connected peer (lines 694 to 699). The state of a
  connected peer carries an identity.\<close>

definition peerListEntry :: "PeerManager \<Rightarrow> peer_ref \<Rightarrow> PeerListEntry" where
  "peerListEntry s p =
     \<lparr>entryIdentity = idOf s p, entryName = orNull (name (peerStore s p)),
      entryAddress = address (peerStore s p), entryPort = port (peerStore s p)\<rparr>"

definition broadcastPeerList :: "PeerManager \<Rightarrow> PeerManager" where
  "broadcastPeerList s =
     (let connectedPeers =
            map (peerListEntry s)
              (filter (\<lambda>p. state_type s p = PEER_CONNECTED \<and>
                           \<not> (isWorker (peerStore s p) \<and> \<not> broadcastWorkers (localPeer s)))
                 (mapValues (identifiedPeers s)))
      in broadcast s (PeerList connectedPeers))"

text \<open>\<^verbatim>\<open>start\<close>: a handle of \<^verbatim>\<open>setInterval\<close> is the callback with its period in
  milliseconds; \<open>timerCallback\<close> is what the handle runs each time the period has
  passed.\<close>

definition start :: "PeerManager \<Rightarrow> PeerManager" where
  "start s = s\<lparr>broadcastPeerListHandle := Some (BroadcastPeerListTimer, 5000),
               disposePeersHandle := Some (DisposePeersTimer, 2000)\<rparr>"

definition timerCallback :: "PeerManager \<Rightarrow> timer \<Rightarrow> PeerManager" where
  "timerCallback s h =
     (case h of
        BroadcastPeerListTimer \<Rightarrow> broadcastPeerList s
      | DisposePeersTimer \<Rightarrow> disposePeers s)"

subsection \<open>The peer manager: opening connections\<close>

definition newConnection :: "PeerManager \<Rightarrow> Connection \<Rightarrow> conn_ref \<times> PeerManager" where
  "newConnection s x =
     (nextConn s, s\<lparr>connStore := (connStore s)(nextConn s := x), nextConn := Suc (nextConn s)\<rparr>)"

definition initConnectionHandlers :: "PeerManager \<Rightarrow> peer_ref \<Rightarrow> conn_ref \<Rightarrow> PeerManager" where
  "initConnectionHandlers s peer connection =
     (if cstate (connStore s connection) = WAITING_FOR_IDENTITY
      then connection_send s connection (identifyMessage (localPeer s))
      else updConn s connection (\<lambda>x. x\<lparr>identifyOnWaiting := True\<rparr>))"

text \<open>\<^verbatim>\<open>initWebSocketConnection\<close> (lines 274 to 291). Modelled from the spec:
  \<^verbatim>\<open>new WebSocketConnection(...)\<close> is a connection in \<open>CONNECTING\<close>.\<close>

definition initWebSocketConnection ::
  "PeerManager \<Rightarrow> peer_ref \<Rightarrow> ConnectionDirection \<Rightarrow> string option \<Rightarrow> nat option \<Rightarrow>
   conn_ref \<times> PeerManager" where
  "initWebSocketConnection s peer dir host n =
     (let (connection, s1) =
            newConnection s
              \<lparr>ctype = WebSocket, direction = dir, cstate = CONNECTING, initiator = False,
               hostname = orNull host, cport = orUndefined n, identifyOnWaiting = False,
               signalBroker = None\<rparr>;
          s2 = initConnectionHandlers s1 peer connection
      in (connection, peer_setWebSocketConnection s2 peer connection))"

text \<open>\<^verbatim>\<open>initWebRtcConnection\<close> (lines 299 to 339); the brokering peer is kept for the
  handler of \<^verbatim>\<open>onSignal\<close>. Modelled from the spec: \<^verbatim>\<open>new WebRtcConnection(initiator,
  ...)\<close> is a connection in \<open>CONNECTING\<close>; its direction, which the specification
  leaves open, is outbound for the side that initiates.\<close>

definition initWebRtcConnection ::
  "PeerManager \<Rightarrow> peer_ref \<Rightarrow> peer_ref \<Rightarrow> bool \<Rightarrow> conn_ref \<times> PeerManager" where
  "initWebRtcConnection s brokeringPeer peer init =
     (let (connection, s1) =
            newConnection s
              \<lparr>ctype = WebRtc, direction = (if init then Outbound else Inbound),
               cstate = CONNECTING, initiator = init, hostname = None, cport = None,
               identifyOnWaiting = False, signalBroker = Some brokeringPeer\<rparr>;
          s2 = initConnectionHandlers s1 peer connection
      in (connection, peer_setWebRtcConnection s2 peer connection))"

definition canConnectToWebSocket :: "PeerManager \<Rightarrow> int \<Rightarrow> peer_ref \<Rightarrow> bool" where
  "canConnectToWebSocket s now peer =
     (let canEstablishNewConnection =
            (state_type s peer \<noteq> PEER_DISCONNECTED \<or>
             length (getPeersWithConnection s) < targetPeers s);
          disconnectOk =
            (case peerRequestedDisconnectUntil (peerStore s peer) of
               None \<Rightarrow> True | Some u \<Rightarrow> u \<le> now);
          hasNoConnection =
            (state_type s peer = PEER_DISCONNECTED \<or> connections_webSocket s peer = None);
          retryOk = canConnect now (getConnectionRetry s peer WebSocket Outbound)
      in canEstablishNewConnection \<and> disconnectOk \<and> hasNoConnection \<and> retryOk \<and>
         address (peerStore s peer) \<noteq> None)"

definition connectToWebSocket ::
  "Imports \<Rightarrow> PeerManager \<Rightarrow> int \<Rightarrow> peer_ref \<Rightarrow> bool \<times> PeerManager" where
  "connectToWebSocket E s now peer =
     (if \<not> canConnectToWebSocket s now peer then (False, s)
      else
        (let s1 = updPeer s peer
                    (\<lambda>x. x\<lparr>localRequestedDisconnectUntil := None,
                           localRequestedDisconnectReason := None,
                           peerRequestedDisconnectUntil := None,
                           peerRequestedDisconnectReason := None\<rparr>)
         in case peer_getWebSocketAddress s1 peer of
              None \<Rightarrow> (False, failedConnection E s1 now peer WebSocket Outbound)
            | Some (a, n) \<Rightarrow>
                (True, snd (initWebSocketConnection (effects s1 [Dial a n]) peer Outbound
                              (address (peerStore s1 peer)) (port (peerStore s1 peer))))))"

text \<open>\<^verbatim>\<open>connectToWebSocketAddress\<close>: the exception it throws is the left summand of the
  result, next to the state the manager is left in.\<close>

definition connectToWebSocketAddress ::
  "Imports \<Rightarrow> PeerManager \<Rightarrow> int \<Rightarrow> string \<Rightarrow> bool \<Rightarrow> (error + peer_ref) \<times> PeerManager" where
  "connectToWebSocketAddress E s now uri whitelisted =
     (let url = parseUrl E uri
      in if \<not> truthy (urlHostname url)
         then (Inl (Error (HostnameNotParseable uri)), s)
         else
           (let (peer, s1) = getOrCreatePeer s None;
                s2 = peer_setWebSocketAddress s1 peer (urlHostname url) (urlPort url);
                s3 = updPeer s2 peer (\<lambda>x. x\<lparr>isWhitelisted := whitelisted\<rparr>)
            in (Inr peer, snd (connectToWebSocket E s3 now peer))))"


subsection \<open>The peer manager: the graph of known peers\<close>

text \<open>The first half of \<^verbatim>\<open>addKnownPeerTo\<close> (lines 1298 to 1304): the edge from
  \<open>addTo\<close> to \<open>peer\<close>.\<close>

definition addEdge :: "PeerManager \<Rightarrow> peer_ref \<Rightarrow> peer_ref \<Rightarrow> bool \<Rightarrow> PeerManager" where
  "addEdge s peer addTo emitKnownPeersChanged =
     (if \<not> mapHas (knownPeers (peerStore s addTo)) (idOf s peer)
      then (let s1 = updPeer s addTo
                       (\<lambda>x. x\<lparr>knownPeers := mapSet (idOf s peer) peer (knownPeers x)\<rparr>)
            in if emitKnownPeersChanged then peer_emitKnownPeersChanged s1 addTo else s1)
      else s)"

function addKnownPeerTo :: "PeerManager \<Rightarrow> peer_ref \<Rightarrow> peer_ref \<Rightarrow> bool \<Rightarrow> PeerManager" where
  "addKnownPeerTo s peer addTo emitKnownPeersChanged =
     (if \<not> truthy (state_identity s peer) \<or> \<not> truthy (state_identity s addTo) then s
      else if state_identity s peer = state_identity s addTo then s
      else if \<not> mapHas (knownPeers (peerStore (addEdge s peer addTo emitKnownPeersChanged) peer))
                  (idOf (addEdge s peer addTo emitKnownPeersChanged) addTo)
      then addKnownPeerTo (addEdge s peer addTo emitKnownPeersChanged) addTo peer True
      else addEdge s peer addTo emitKnownPeersChanged)"
  by pat_completeness auto


text \<open>The recursion of \<^verbatim>\<open>addKnownPeerTo\<close> ends: each call that recurs has put one of
  the two edges between the pair in place, and recurs for the other.\<close>

definition missingEdges :: "PeerManager \<times> peer_ref \<times> peer_ref \<times> bool \<Rightarrow> nat" where
  "missingEdges a =
     (case a of (s, peer, addTo, e) \<Rightarrow>
        (if mapHas (knownPeers (peerStore s peer)) (idOf s addTo) then 0 else 2) +
        (if mapHas (knownPeers (peerStore s addTo)) (idOf s peer) then 0 else 1))"

lemma map_of_mapSet: "map_of (mapSet k v m) = (map_of m)(k \<mapsto> v)"
  by (induction m) (auto simp: fun_eq_iff)

lemma mapHas_mapSet: "mapHas (mapSet k v m) k' = (k' = k \<or> mapHas m k')"
  by (simp add: mapHas_def map_of_mapSet)

lemma addEdge_other:
  "peer \<noteq> addTo \<Longrightarrow> peerStore (addEdge s peer addTo e) peer = peerStore s peer"
  by (simp add: addEdge_def updPeer_def peer_emitKnownPeersChanged_def effects_def Let_def)

lemma addEdge_identity: "state_identity (addEdge s peer addTo e) q = state_identity s q"
  by (simp add: addEdge_def updPeer_def peer_emitKnownPeersChanged_def effects_def Let_def
      state_identity_def)

lemma addEdge_has:
  "mapHas (knownPeers (peerStore (addEdge s peer addTo e) addTo)) (idOf s peer)"
  by (simp add: addEdge_def updPeer_def peer_emitKnownPeersChanged_def effects_def Let_def
      mapHas_mapSet)

lemma idOf_addEdge: "idOf (addEdge s peer addTo e) q = idOf s q"
  by (simp add: idOf_def addEdge_identity)

termination addKnownPeerTo
proof (relation "measure missingEdges", goal_cases)
  case 1
  show ?case by simp
next
  case (2 s peer addTo e)
  then have ne: "peer \<noteq> addTo" by auto
  from 2 have lack: "\<not> mapHas (knownPeers (peerStore s peer)) (idOf s addTo)"
    by (simp add: addEdge_other [OF ne] idOf_addEdge)
  show ?case
    using lack addEdge_has [of s peer addTo e]
    by (simp add: missingEdges_def addEdge_other [OF ne] idOf_addEdge)
qed

declare addKnownPeerTo.simps [simp del]

subsection \<open>The peer manager: handling messages\<close>

text \<open>\<^verbatim>\<open>handleDisconnectingMessage\<close> (lines 784 to 825); \<open>requested\<close> is its end, for
  a message without a destination or addressed to the local peer.\<close>

definition handleDisconnectingMessage ::
  "PeerManager \<Rightarrow> peer_ref \<Rightarrow> Identity \<Rightarrow> Identity option \<Rightarrow> DisconnectingReason \<Rightarrow> int \<Rightarrow>
   PeerManager" where
  "handleDisconnectingMessage s messageSender sourceIdentity destinationIdentity r until =
     (let requested =
            peer_close
              (updPeer s messageSender
                 (\<lambda>x. x\<lparr>peerRequestedDisconnectReason := Some r,
                        peerRequestedDisconnectUntil := Some until\<rparr>))
              messageSender None
      in case destinationIdentity of
           None \<Rightarrow> requested
         | Some destination \<Rightarrow>
             if destination = publicIdentity (localPeer s) then requested
             else if Some sourceIdentity \<noteq> state_identity s messageSender then s
             else (case getPeer s destination of
                     None \<Rightarrow> s
                   | Some destinationPeer \<Rightarrow>
                       sendTo s destinationPeer
                         (Disconnecting sourceIdentity destinationIdentity r until)))"

text \<open>\<^verbatim>\<open>handleSignalRequestMessage\<close> (lines 1029 to 1105).\<close>

definition handleSignalRequestMessage ::
  "Imports \<Rightarrow> PeerManager \<Rightarrow> peer_ref \<Rightarrow> Identity \<Rightarrow> Identity \<Rightarrow> PeerManager" where
  "handleSignalRequestMessage E s messageSender sourceIdentity destinationIdentity =
     (if canInitiateWebRTC E sourceIdentity destinationIdentity then s
      else if destinationIdentity \<noteq> publicIdentity (localPeer s)
      then (if Some sourceIdentity \<noteq> state_identity s messageSender then s
            else case getPeer s destinationIdentity of
                   None \<Rightarrow> s
                 | Some destinationPeer \<Rightarrow>
                     sendTo s destinationPeer (SignalRequest sourceIdentity destinationIdentity))
      else if shouldRejectDisconnectedPeers s \<and>
              (case getPeer s sourceIdentity of
                 None \<Rightarrow> True
               | Some peer \<Rightarrow> state_type s peer \<noteq> PEER_CONNECTED)
      then peer_send s messageSender
             (Disconnecting (publicIdentity (localPeer s)) (Some sourceIdentity) Congested
                (1000 * 60 * 5))
      else (let (targetPeer, s1) = getOrCreatePeer s (Some sourceIdentity);
                s2 = addKnownPeerTo s1 targetPeer messageSender True
            in if state_type s2 targetPeer \<noteq> PEER_DISCONNECTED \<and>
                  connections_webRtc s2 targetPeer \<noteq> None
               then s2
               else snd (initWebRtcConnection s2 messageSender targetPeer True)))"

text \<open>The end of \<^verbatim>\<open>handleSignalMessage\<close> (lines 1194 to 1221), for the connection
  chosen before it: unbox, parse, feed.\<close>

definition feedSignal ::
  "Imports \<Rightarrow> PeerManager \<Rightarrow> conn_ref \<Rightarrow> Identity \<Rightarrow> string \<Rightarrow> string \<Rightarrow> PeerManager" where
  "feedSignal E s connection sourceIdentity nonce boxed =
     (case unboxMessage E boxed nonce sourceIdentity of
        None \<Rightarrow> connection_close s connection (Some (NetworkError FailedToDecrypt))
      | Some result \<Rightarrow>
          (case jsonParse E result of
             None \<Rightarrow> connection_close s connection (Some (NetworkError FailedToDecode))
           | Some signalData \<Rightarrow> connection_signal s connection signalData))"

text \<open>\<^verbatim>\<open>handleSignalMessage\<close> (lines 1111 to 1222), up to the choice of the
  connection.\<close>

definition handleSignalMessage ::
  "Imports \<Rightarrow> PeerManager \<Rightarrow> peer_ref \<Rightarrow> Identity \<Rightarrow> Identity \<Rightarrow> string \<Rightarrow> string \<Rightarrow>
   PeerManager" where
  "handleSignalMessage E s messageSender sourceIdentity destinationIdentity nonce boxed =
     (if destinationIdentity \<noteq> publicIdentity (localPeer s)
      then (if Some sourceIdentity \<noteq> state_identity s messageSender then s
            else case getPeer s destinationIdentity of
                   None \<Rightarrow> s
                 | Some destinationPeer \<Rightarrow>
                     sendTo s destinationPeer
                       (Signal sourceIdentity destinationIdentity nonce boxed))
      else if shouldRejectDisconnectedPeers s \<and>
              (case getPeer s sourceIdentity of
                 None \<Rightarrow> True
               | Some peer \<Rightarrow> state_type s peer \<noteq> PEER_CONNECTED)
      then peer_send s messageSender
             (Disconnecting (publicIdentity (localPeer s)) (Some sourceIdentity) Congested
                (1000 * 60 * 5))
      else (let (signalingPeer, s1) = getOrCreatePeer s (Some sourceIdentity);
                s2 = addKnownPeerTo s1 signalingPeer messageSender True
            in if state_type s2 signalingPeer = PEER_DISCONNECTED \<or>
                  connections_webRtc s2 signalingPeer = None
               then (case state_identity s2 signalingPeer of
                       None \<Rightarrow> s2
                     | Some signalingIdentity \<Rightarrow>
                         if \<not> canInitiateWebRTC E signalingIdentity destinationIdentity
                         then s2
                         else (let (connection, s3) =
                                     initWebRtcConnection s2 messageSender signalingPeer False
                               in feedSignal E s3 connection sourceIdentity nonce boxed))
               else (case connections_webRtc s2 signalingPeer of
                       None \<Rightarrow> s2
                     | Some connection \<Rightarrow>
                         feedSignal E s2 connection sourceIdentity nonce boxed)))"

text \<open>\<^verbatim>\<open>handlePeerListMessage\<close> (lines 1224 to 1285). \<open>newPeerSet\<close> is the map built
  from the list, without the local identity. The first loop runs over the known peers of
  the sender as they were when it began and skips an entry that has left the map since
  (the iteration of a JavaScript \<^verbatim>\<open>Map\<close> does not visit a deleted entry); the
  second runs over \<open>newPeerSet\<close>. Both carry the flag \<open>changed\<close>.\<close>

definition newPeerSet :: "PeerManager \<Rightarrow> PeerListEntry list \<Rightarrow> (Identity \<times> PeerListEntry) list" where
  "newPeerSet s connectedPeers =
     mapDelete (publicIdentity (localPeer s))
       (fold (\<lambda>e memo. mapSet (entryIdentity e) e memo) connectedPeers [])"

definition removeEdgeStep ::
  "(Identity \<times> PeerListEntry) list \<Rightarrow> peer_ref \<Rightarrow> Identity \<times> peer_ref \<Rightarrow>
   PeerManager \<times> bool \<Rightarrow> PeerManager \<times> bool" where
  "removeEdgeStep new peer e a =
     (case (e, a) of
        ((otherIdentity, otherPeer), (s, changed)) \<Rightarrow>
          if mapGet (knownPeers (peerStore s peer)) otherIdentity \<noteq> Some otherPeer then (s, changed)
          else if \<not> mapHas new otherIdentity
          then (let s1 = updPeer s peer
                           (\<lambda>x. x\<lparr>knownPeers := mapDelete otherIdentity (knownPeers x)\<rparr>);
                    s2 = (case state_identity s1 peer of
                            None \<Rightarrow> s1
                          | Some i \<Rightarrow>
                              updPeer s1 otherPeer
                                (\<lambda>x. x\<lparr>knownPeers := mapDelete i (knownPeers x)\<rparr>));
                    s3 = snd (tryDisposePeer s2 peer);
                    s4 = snd (tryDisposePeer s3 otherPeer)
                in (s4, True))
          else (s, changed))"

definition addEdgeStep ::
  "peer_ref \<Rightarrow> PeerListEntry \<Rightarrow> PeerManager \<times> bool \<Rightarrow> PeerManager \<times> bool" where
  "addEdgeStep peer newPeer a =
     (case a of
        (s, changed) \<Rightarrow>
          if \<not> mapHas (knownPeers (peerStore s peer)) (entryIdentity newPeer)
          then (let (knownPeer, s1) = getOrCreatePeer s (Some (entryIdentity newPeer));
                    s2 = peer_setWebSocketAddress s1 knownPeer
                           (entryAddress newPeer) (entryPort newPeer);
                    s3 = updPeer s2 knownPeer (\<lambda>x. x\<lparr>name := orNull (entryName newPeer)\<rparr>);
                    s4 = addKnownPeerTo s3 knownPeer peer False
                in (s4, True))
          else (s, changed))"

definition handlePeerListMessage :: "PeerManager \<Rightarrow> PeerListEntry list \<Rightarrow> peer_ref \<Rightarrow> PeerManager" where
  "handlePeerListMessage s connectedPeers peer =
     (if state_type s peer \<noteq> PEER_CONNECTED then s
      else if localIsWorker (localPeer s) then s
      else (let new = newPeerSet s connectedPeers;
                a1 = fold (removeEdgeStep new peer) (knownPeers (peerStore s peer)) (s, False);
                a2 = fold (addEdgeStep peer) (mapValues new) a1
            in if snd a2 then peer_emitKnownPeersChanged (fst a2) peer else fst a2))"


subsection \<open>The peer manager: the handshake\<close>

text \<open>Modelled from the spec: \<^verbatim>\<open>versionsAreCompatible\<close> of \<^verbatim>\<open>../version\<close>, which is
  not among the sources. Two versions are compatible iff their protocol versions are
  equal.\<close>

definition versionsAreCompatible :: "Version \<Rightarrow> Version \<Rightarrow> bool" where
  "versionsAreCompatible a b = (protocolVersion a = protocolVersion b)"

text \<open>Lines 908 to 934: a connection whose peer record has another identity moves to the
  peer of the identity it has sent. The result is the peer the handshake goes on with.\<close>

definition moveToIdentifiedPeer ::
  "PeerManager \<Rightarrow> peer_ref \<Rightarrow> conn_ref \<Rightarrow> Identity \<Rightarrow> peer_ref \<times> PeerManager" where
  "moveToIdentifiedPeer s peer connection i =
     (if state_identity s peer \<noteq> None \<and> state_identity s peer \<noteq> Some i
      then (let s1 = peer_removeConnection s peer connection;
                s2 = neverRetryConnecting s1 peer (ctype (connStore s1 connection))
                       (direction (connStore s1 connection));
                originalPeer = peer;
                (peer', s3) = getOrCreatePeer s2 (Some i)
            in if ctype (connStore s3 connection) = WebRtc
               then (peer', peer_setWebRtcConnection s3 peer' connection)
               else (let s4 =
                           (if ctype (connStore s3 connection) = WebSocket \<and>
                               direction (connStore s3 connection) = Outbound \<and>
                               address (peerStore s3 originalPeer) \<noteq> None
                            then peer_setWebSocketAddress
                                   (peer_setWebSocketAddress s3 peer'
                                      (address (peerStore s3 originalPeer))
                                      (port (peerStore s3 originalPeer)))
                                   originalPeer None None
                            else s3)
                     in (peer', peer_setWebSocketConnection s4 peer' connection)))
      else (peer, s))"

text \<open>Lines 950 to 969: which of the two connections of a duplicate pair is closed.\<close>

definition connectionToClose ::
  "Imports \<Rightarrow> PeerManager \<Rightarrow> Identity \<Rightarrow> conn_ref \<Rightarrow> conn_ref \<Rightarrow> conn_ref" where
  "connectionToClose E s i connection existingConnection =
     (let c0 = connection;
          c1 = (if canKeepDuplicateConnection E i (publicIdentity (localPeer s))
                then (if direction (connStore s connection) = Outbound then connection
                      else if direction (connStore s existingConnection) = Outbound
                      then existingConnection
                      else c0)
                else c0)
      in if canKeepDuplicateConnection E (publicIdentity (localPeer s)) i
         then (if direction (connStore s connection) = Inbound then connection
               else if direction (connStore s existingConnection) = Inbound
               then existingConnection
               else c1)
         else c1)"

text \<open>Lines 978 to 1022: the port, the name and the version of the peer, the reminder of
  a disconnect that the local peer has asked for, and the transition to
  \<open>CONNECTED\<close>. An absent reason of the disconnect is \<open>Congested\<close>.\<close>

definition completeHandshake ::
  "PeerManager \<Rightarrow> int \<Rightarrow> peer_ref \<Rightarrow> conn_ref \<Rightarrow> peer_ref option \<Rightarrow> Identity \<Rightarrow> Version \<Rightarrow>
   nat option \<Rightarrow> string option \<Rightarrow> bool option \<Rightarrow> PeerManager" where
  "completeHandshake s now peer connection existingPeer i v n nm w =
     (let s1 = (if ctype (connStore s connection) = WebSocket \<and>
                   direction (connStore s connection) = Inbound
                then updConn s connection (\<lambda>x. x\<lparr>cport := orUndefined n\<rparr>)
                else s);
          s2 = updPeer s1 peer
                 (\<lambda>x. x\<lparr>name := nm, isWorker := (case w of None \<Rightarrow> False | Some b \<Rightarrow> b),
                        version := Some v\<rparr>)
      in case (case existingPeer of
                 None \<Rightarrow> None
               | Some e \<Rightarrow>
                   (case localRequestedDisconnectUntil (peerStore s2 e) of
                      None \<Rightarrow> None
                    | Some until \<Rightarrow> if now < until then Some (e, until) else None)) of
           Some (e, until) \<Rightarrow>
             connection_close
               (connection_send s2 connection
                  (Disconnecting (publicIdentity (localPeer s2)) (Some i)
                     (case localRequestedDisconnectReason (peerStore s2 e) of
                        None \<Rightarrow> Congested | Some r \<Rightarrow> r)
                     until))
               connection (Some (NetworkError (ToldToDisconnect until)))
         | None \<Rightarrow> connection_setState s2 connection (CONNECTED i))"

text \<open>Lines 936 to 976, and on to the rest of the handshake unless the connection at hand
  was the duplicate to close.\<close>

definition resolveDuplicate ::
  "Imports \<Rightarrow> PeerManager \<Rightarrow> int \<Rightarrow> peer_ref \<Rightarrow> conn_ref \<Rightarrow> Identity \<Rightarrow> Version \<Rightarrow>
   nat option \<Rightarrow> string option \<Rightarrow> bool option \<Rightarrow> PeerManager" where
  "resolveDuplicate E s now peer connection i v n nm w =
     (let existingPeer = getPeer s i
      in case (case existingPeer of
                 None \<Rightarrow> None
               | Some e \<Rightarrow>
                   if state_type s e = PEER_CONNECTED \<and>
                      ctype (connStore s connection) = WebSocket
                   then connections_webSocket s e
                   else None) of
           Some existingConnection \<Rightarrow>
             (let toClose = connectionToClose E s i connection existingConnection;
                  s1 = connection_close s toClose
                         (Some (NetworkError
                            (ClosingDuplicate (ctype (connStore s toClose))
                               (direction (connStore s toClose)))))
              in if toClose = connection then s1
                 else completeHandshake s1 now peer connection existingPeer i v n nm w)
         | None \<Rightarrow> completeHandshake s now peer connection existingPeer i v n nm w)"

text \<open>\<^verbatim>\<open>handleWaitingForIdentityMessage\<close> (lines 834 to 1023).\<close>

definition handleWaitingForIdentityMessage ::
  "Imports \<Rightarrow> PeerManager \<Rightarrow> int \<Rightarrow> peer_ref \<Rightarrow> conn_ref \<Rightarrow> message \<Rightarrow> PeerManager" where
  "handleWaitingForIdentityMessage E s now peer connection m =
     (case m of
        Identify i versionString n nm0 w \<Rightarrow>
          (let v = parseVersion E versionString;
               nm = orNull nm0;
               t = ctype (connStore s connection);
               d = direction (connStore s connection)
           in if \<not> isIdentity E i
              then peer_close (failedConnection E s now peer t d) peer
                     (Some (Error (IdentityFormat i)))
              else if \<not> versionsAreCompatible (localVersion (localPeer s)) v
              then peer_close (failedConnection E s now peer t d) peer
                     (Some (Error (VersionNotCompatible versionString)))
              else if (case nm of None \<Rightarrow> False | Some x \<Rightarrow> 32 < length x)
              then peer_close (failedConnection E s now peer t d) peer
                     (Some (Error (NameTooLong (case nm of None \<Rightarrow> 0 | Some x \<Rightarrow> length x))))
              else if i = publicIdentity (localPeer s)
              then (let s1 = peer_removeConnection s peer connection;
                        s2 = neverRetryConnecting s1 peer t d;
                        s3 = (if t = WebSocket \<and> d = Outbound
                              then peer_setWebSocketAddress s2 peer None None
                              else s2);
                        s4 = connection_close s3 connection
                               (Some (NetworkError (ClosingOwnIdentity t)))
                    in snd (tryDisposePeer s4 peer))
              else (let (peer', s1) = moveToIdentifiedPeer s peer connection i
                    in resolveDuplicate E s1 now peer' connection i v n nm w))
      | _ \<Rightarrow> peer_close s peer None)"

text \<open>\<^verbatim>\<open>handleMessage\<close> (lines 756 to 782).\<close>

definition handleMessage ::
  "Imports \<Rightarrow> PeerManager \<Rightarrow> int \<Rightarrow> peer_ref \<Rightarrow> conn_ref \<Rightarrow> message \<Rightarrow> PeerManager" where
  "handleMessage E s now peer connection m =
     (case m of
        Disconnecting src dst r until \<Rightarrow> handleDisconnectingMessage s peer src dst r until
      | _ \<Rightarrow>
          if cstate (connStore s connection) = WAITING_FOR_IDENTITY
          then handleWaitingForIdentityMessage E s now peer connection m
          else (case m of
                  Identify i v n nm w \<Rightarrow> s
                | SignalRequest src dst \<Rightarrow> handleSignalRequestMessage E s peer src dst
                | Signal src dst nonce boxed \<Rightarrow> handleSignalMessage E s peer src dst nonce boxed
                | PeerList connectedPeers \<Rightarrow> handlePeerListMessage s connectedPeers peer
                | _ \<Rightarrow>
                    (case state_identity s peer of
                       None \<Rightarrow> peer_close s peer None
                     | Some i \<Rightarrow> effects s [Emit (OnMessage peer i m)])))"


section \<open>Notions for the properties\<close>

text \<open>The effects of a run from \<open>s\<close> to \<open>s'\<close>: what the trace has gained.\<close>

definition emitted :: "PeerManager \<Rightarrow> PeerManager \<Rightarrow> effect list" where
  "emitted s s' = drop (length (trace s)) (trace s')"

text \<open>The connections that a trace closes as duplicates.\<close>

fun duplicateCloses :: "effect list \<Rightarrow> conn_ref list" where
  "duplicateCloses [] = []"
| "duplicateCloses (ConnClose c (Some (NetworkError (ClosingDuplicate t d))) # es) =
     c # duplicateCloses es"
| "duplicateCloses (e # es) = duplicateCloses es"



text \<open>The messages of the application that a trace emits on \<^verbatim>\<open>onMessage\<close>, and the
  signalling data it feeds to connections.\<close>

fun isOnMessage :: "effect \<Rightarrow> bool" where
  "isOnMessage (Emit (OnMessage p i m)) = True"
| "isOnMessage e = False"

fun isConnSignal :: "effect \<Rightarrow> bool" where
  "isConnSignal (ConnSignal c d) = True"
| "isConnSignal e = False"

text \<open>The three conditions under which \<^verbatim>\<open>tryDisposePeer\<close> disposes of a peer.\<close>

abbreviation disposalConditions :: "PeerManager \<Rightarrow> peer_ref \<Rightarrow> bool" where
  "disposalConditions s p \<equiv>
     state_type s p = PEER_DISCONNECTED \<and>
     (\<forall>q \<in> set (mapValues (knownPeers (peerStore s p))). state_type s q \<noteq> PEER_CONNECTED) \<and>
     neverRetry (getConnectionRetry s p WebSocket Outbound)"

text \<open>The record of a peer that has been disposed of, and the invariant of the disposal
  sweep from \<open>s\<close>: connections are untouched, a peer record is as it was or is that of a
  peer that met the conditions and was disposed of, and nothing has left the list of peers
  or the map of identified peers that did not meet the conditions in \<open>s\<close>.\<close>

definition disposedRecord :: "Peer \<Rightarrow> Peer" where
  "disposedRecord x = x\<lparr>knownPeers := [], identifyWhenConnected := False, subscribed := False\<rparr>"

definition sweepInv :: "PeerManager \<Rightarrow> PeerManager \<Rightarrow> bool" where
  "sweepInv s t =
     (connStore t = connStore s \<and>
      (\<forall>q. peerStore t q = peerStore s q \<or>
           (disposalConditions s q \<and> peerStore t q = disposedRecord (peerStore s q))) \<and>
      (\<forall>q. q \<in> set (peers s) \<longrightarrow> q \<in> set (peers t) \<or> disposalConditions s q) \<and>
      (\<forall>i q. mapGet (identifiedPeers s) i = Some q \<longrightarrow>
           mapGet (identifiedPeers t) i = Some q \<or> disposalConditions s q))"

text \<open>What \<^verbatim>\<open>addKnownPeerTo\<close> leaves alone on the way from \<open>s\<close> to \<open>s'\<close>: the
  connections, the slots and identities of the peers, the local peer; and it feeds no
  signalling data.\<close>

definition sameConnections :: "PeerManager \<Rightarrow> PeerManager \<Rightarrow> bool" where
  "sameConnections s s' =
     (connStore s' = connStore s \<and> nextConn s' = nextConn s \<and> localPeer s' = localPeer s \<and>
      (\<forall>q. webRtc (peerStore s' q) = webRtc (peerStore s q) \<and>
           webSocket (peerStore s' q) = webSocket (peerStore s q) \<and>
           identity (peerStore s' q) = identity (peerStore s q)) \<and>
      (\<exists>es. trace s' = trace s @ es \<and> \<not> list_ex isConnSignal es))"

section \<open>A small network\<close>

text \<open>
  Modelled from the spec: one choice of the functions of \<^verbatim>\<open>../identity\<close>,
  \<^verbatim>\<open>../version\<close> and \<^verbatim>\<open>../utils\<close>, which are not among the sources. An identity is
  32 bytes in base64 (44 characters); \<^verbatim>\<open>canInitiateWebRTC(a, b)\<close> and
  \<^verbatim>\<open>canKeepDuplicateConnection(a, b)\<close> hold iff \<open>a\<close> is before \<open>b\<close> in the
  lexicographic order (section 4.A); a version string is
  \<^verbatim>\<open>agent/protocol/client\<close>.
\<close>

fun identityLess :: "string \<Rightarrow> string \<Rightarrow> bool" where
  "identityLess [] [] = False"
| "identityLess [] (y # ys) = True"
| "identityLess (x # xs) [] = False"
| "identityLess (x # xs) (y # ys) =
     ((of_char x :: nat) < of_char y \<or> (x = y \<and> identityLess xs ys))"

definition idA :: Identity where
  "idA = ''AAAAAAAAAAAAAAAAAAAAAAAAAAAAAAAAAAAAAAAAAAA=''"

definition idM :: Identity where
  "idM = ''MMMMMMMMMMMMMMMMMMMMMMMMMMMMMMMMMMMMMMMMMMM=''"

definition idZ :: Identity where
  "idZ = ''ZZZZZZZZZZZZZZZZZZZZZZZZZZZZZZZZZZZZZZZZZZZ=''"

definition idB :: Identity where
  "idB = ''BBBBBBBBBBBBBBBBBBBBBBBBBBBBBBBBBBBBBBBBBBB=''"

definition idR :: Identity where
  "idR = ''RRRRRRRRRRRRRRRRRRRRRRRRRRRRRRRRRRRRRRRRRRR=''"

definition version1 :: Version where
  "version1 = \<lparr>agent = ''sdk'', protocolVersion = 1, client = ''cli''\<rparr>"

definition version0 :: Version where
  "version0 = \<lparr>agent = ''sdk'', protocolVersion = 0, client = ''cli''\<rparr>"

definition demoImports :: Imports where
  "demoImports =
     \<lparr>isIdentity = (\<lambda>x. length x = 44),
      canInitiateWebRTC = identityLess,
      canKeepDuplicateConnection = identityLess,
      parseVersion = (\<lambda>x. if x = ''sdk/1/cli'' then version1 else version0),
      parseUrl = (\<lambda>x. if x = ''ws://node.example:9033''
                       then \<lparr>urlProtocol = Some ''ws'', urlHostname = Some ''node.example'',
                             urlPort = Some 9033\<rparr>
                       else \<lparr>urlProtocol = None, urlHostname = None, urlPort = None\<rparr>),
      unboxMessage = (\<lambda>boxed nonce sender. if nonce = ''n1'' then Some boxed else None),
      jsonParse = (\<lambda>x. if x = [] then None else Some x),
      backoff = (\<lambda>k. 1000 * int k)\<rparr>"

text \<open>
  The local peer \<open>M\<close> holds three peers: peer 21 is \<open>A\<close>, connected by the
  WebSocket connection 11 that the local peer has dialled; peer 22 is \<open>Z\<close>, connected by
  the inbound WebSocket connection 12; peer 23 has no identity yet, its inbound WebSocket
  connection 13 waits for the identity of its remote end. Connection 14 is an inbound
  WebRTC connection of peer 22 that waits for an identity.
\<close>

definition demoConnection :: "ConnectionType \<Rightarrow> ConnectionDirection \<Rightarrow> ConnectionState \<Rightarrow> Connection" where
  "demoConnection t d st =
     \<lparr>ctype = t, direction = d, cstate = st, initiator = (d = Outbound), hostname = None,
      cport = None, identifyOnWaiting = False, signalBroker = None\<rparr>"

definition demoLocalPeer :: LocalPeer where
  "demoLocalPeer =
     \<lparr>publicIdentity = idM,
      identifyMessage = Identify idM ''sdk/1/cli'' (Some 9033) (Some ''m'') None,
      localVersion = version1, localIsWorker = False, broadcastWorkers = False\<rparr>"

definition demoPeers :: "peer_ref \<Rightarrow> Peer" where
  "demoPeers =
     (\<lambda>p. freshPeer None)
       (21 := (freshPeer (Some idA))
               \<lparr>address := Some ''10.0.0.1'', port := Some 9033, webSocket := Some 11,
                subscribed := True\<rparr>,
        22 := (freshPeer (Some idZ))
               \<lparr>address := Some ''10.0.0.2'', port := Some 9033, webSocket := Some 12,
                webRtc := Some 14, subscribed := True\<rparr>,
        23 := (freshPeer None)
               \<lparr>webSocket := Some 13, identifyWhenConnected := True, subscribed := True\<rparr>)"

definition demoConnections :: "conn_ref \<Rightarrow> Connection" where
  "demoConnections =
     (\<lambda>c. demoConnection WebSocket Inbound DISCONNECTED)
       (11 := demoConnection WebSocket Outbound (CONNECTED idA),
        12 := demoConnection WebSocket Inbound (CONNECTED idZ),
        13 := demoConnection WebSocket Inbound WAITING_FOR_IDENTITY,
        14 := demoConnection WebRtc Inbound WAITING_FOR_IDENTITY)"

definition demo :: PeerManager where
  "demo =
     \<lparr>localPeer = demoLocalPeer,
      identifiedPeers = [(idA, 21), (idZ, 22)],
      peers = [21, 22, 23],
      maxPeers = 10000, targetPeers = 50,
      broadcastPeerListHandle = None, disposePeersHandle = None,
      peerStore = demoPeers, connStore = demoConnections,
      nextPeer = 24, nextConn = 15, trace = []\<rparr>"

text \<open>The entry of a peer list that names \<open>A\<close>.\<close>

definition demoEntryA :: PeerListEntry where
  "demoEntryA =
     \<lparr>entryIdentity = idA, entryName = None, entryAddress = Some ''10.0.0.1'',
      entryPort = Some 9033\<rparr>"

text \<open>The same network with a fourth peer, \<open>R\<close>, that has no connection left and is
  never to be dialled again.\<close>

definition demoStale :: PeerManager where
  "demoStale =
     demo\<lparr>identifiedPeers := [(idA, 21), (idZ, 22), (idR, 24)],
          peers := [21, 22, 23, 24],
          peerStore := demoPeers
            (24 := (freshPeer (Some idR))
                     \<lparr>retries := (\<lambda>t d. \<lparr>neverRetry = True, cooldownUntil = 0,
                                           consecutiveFailures = 0\<rparr>)\<rparr>),
          nextPeer := 25\<rparr>"

text \<open>The same network when three peers with a connection are all it may hold.\<close>

definition demoCongested :: PeerManager where
  "demoCongested = demo\<lparr>maxPeers := 3\<rparr>"




section \<open>Disposal of peers\<close>

lemma mapGet_mapDelete: "mapGet (mapDelete k m) i = (if i = k then None else mapGet m i)"
  by (induction m) (auto simp: mapGet_def mapDelete_def)

lemma tryDisposePeer_fst: "fst (tryDisposePeer s p) = disposalConditions s p"
  by (auto simp: tryDisposePeer_def hasAConnectedPeer_def willNeverRetryConnecting_def
      list_ex_iff Let_def)

lemma tryDisposePeer_fail: "\<not> disposalConditions s p \<Longrightarrow> tryDisposePeer s p = (False, s)"
  using tryDisposePeer_fst [of s p] by (auto simp: tryDisposePeer_def Let_def)

lemma tryDisposePeer_ok:
  assumes "disposalConditions s p" and "t = snd (tryDisposePeer s p)"
  shows "connStore t = connStore s"
    and "peerStore t = (peerStore s)(p := disposedRecord (peerStore s p))"
    and "peers t = filter (\<lambda>q. q \<noteq> p) (peers s)"
    and "mapGet (identifiedPeers t) i = Some q \<or> mapGet (identifiedPeers s) i \<noteq> Some q \<or> q = p"
  using assms tryDisposePeer_fst [of s p]
  by (auto simp: tryDisposePeer_def Let_def peer_dispose_def effects_def updPeer_def
      disposedRecord_def state_identity_def mapGet_mapDelete split: option.splits)


lemma sweepInv_refl: "sweepInv s s"
  by (simp add: sweepInv_def)

lemma state_type_cong:
  "connStore t = connStore s \<Longrightarrow> webSocket (peerStore t q) = webSocket (peerStore s q) \<Longrightarrow>
   webRtc (peerStore t q) = webRtc (peerStore s q) \<Longrightarrow> state_type t q = state_type s q"
  by (simp add: state_type_def connections_webSocket_def connections_webRtc_def liveConn_def
      slotConnected_def cong: option.case_cong)

lemma sweepInv_state_type: "sweepInv s t \<Longrightarrow> state_type t q = state_type s q"
proof -
  assume inv: "sweepInv s t"
  then have "peerStore t q = peerStore s q \<or> peerStore t q = disposedRecord (peerStore s q)"
    by (auto simp: sweepInv_def)
  then have "webSocket (peerStore t q) = webSocket (peerStore s q)"
    and "webRtc (peerStore t q) = webRtc (peerStore s q)"
    by (auto simp: disposedRecord_def)
  with inv show ?thesis by (auto intro: state_type_cong simp: sweepInv_def)
qed

lemma sweepInv_conditions:
  assumes "sweepInv s t"
  shows "disposalConditions t q \<longleftrightarrow> disposalConditions s q"
proof -
  from assms have "peerStore t q = peerStore s q \<or>
      (disposalConditions s q \<and> peerStore t q = disposedRecord (peerStore s q))"
    by (auto simp: sweepInv_def)
  then show ?thesis
  proof
    assume "peerStore t q = peerStore s q"
    then show ?thesis
      by (simp add: sweepInv_state_type [OF assms] getConnectionRetry_def)
  next
    assume "disposalConditions s q \<and> peerStore t q = disposedRecord (peerStore s q)"
    then show ?thesis
      by (simp add: sweepInv_state_type [OF assms] getConnectionRetry_def disposedRecord_def
          mapValues_def)
  qed
qed

lemma sweepInv_step:
  assumes inv: "sweepInv s t"
  shows "sweepInv s (snd (tryDisposePeer t p))"
proof (cases "disposalConditions t p")
  case False
  then show ?thesis using inv by (simp add: tryDisposePeer_fail)
next
  case True
  then have sp: "disposalConditions s p"
    using sweepInv_conditions [OF inv] by blast
  define u where "u = snd (tryDisposePeer t p)"
  note ok = tryDisposePeer_ok [OF True u_def]
  have 1: "connStore u = connStore s"
    using ok(1) inv by (simp add: sweepInv_def)
  have 2: "peerStore u q = peerStore s q \<or>
      (disposalConditions s q \<and> peerStore u q = disposedRecord (peerStore s q))" for q
  proof (cases "q = p")
    case False
    then show ?thesis using ok(2) inv by (auto simp: sweepInv_def)
  next
    case qp: True
    from inv have "peerStore t p = peerStore s p \<or> peerStore t p = disposedRecord (peerStore s p)"
      by (auto simp: sweepInv_def)
    then have "disposedRecord (peerStore t p) = disposedRecord (peerStore s p)"
      by (auto simp: disposedRecord_def)
    then show ?thesis using ok(2) sp qp by simp
  qed
  have 3: "q \<in> set (peers u) \<or> disposalConditions s q" if "q \<in> set (peers s)" for q
    using that ok(3) inv sp by (auto simp: sweepInv_def)
  have 4: "mapGet (identifiedPeers u) i = Some q \<or> disposalConditions s q"
    if "mapGet (identifiedPeers s) i = Some q" for i q
  proof -
    from inv that have "mapGet (identifiedPeers t) i = Some q \<or> disposalConditions s q"
      unfolding sweepInv_def by blast
    then show ?thesis
    proof
      assume "mapGet (identifiedPeers t) i = Some q"
      with ok(4) [of i q] have "mapGet (identifiedPeers u) i = Some q \<or> q = p" by blast
      with sp show ?thesis by blast
    qed blast
  qed
  show ?thesis
    unfolding u_def [symmetric] sweepInv_def using 1 2 3 4 by blast
qed

lemma sweepInv_fold:
  "sweepInv s t \<Longrightarrow> sweepInv s (fold (\<lambda>p t. snd (tryDisposePeer t p)) xs t)"
  by (induction xs arbitrary: t) (auto intro: sweepInv_step)

lemma sweepInv_disposePeers: "sweepInv s (disposePeers s)"
  unfolding disposePeers_def by (rule sweepInv_fold [OF sweepInv_refl])

lemma tryDisposePeer_gone:
  "disposalConditions s p \<Longrightarrow> state_identity s p = Some j \<Longrightarrow> j \<noteq> [] \<Longrightarrow>
   mapGet (identifiedPeers (snd (tryDisposePeer s p))) j \<noteq> Some p"
  by (auto simp: tryDisposePeer_def Let_def peer_dispose_def effects_def updPeer_def
      state_identity_def mapGet_mapDelete hasAConnectedPeer_def willNeverRetryConnecting_def
      list_ex_iff split: option.splits)

text \<open>
  Claim C6. \<^verbatim>\<open>tryDisposePeer\<close> returns true exactly when the peer is
  \<open>DISCONNECTED\<close>, none of its known peers is \<open>CONNECTED\<close> and its outbound WebSocket
  retry is marked never to retry; when one of the three fails it returns false and leaves
  the manager as it was. A peer that leaves the list of peers, or an entry that leaves
  the map of identified peers, in one call is the peer of the call and met the three
  conditions; one that leaves in the disposal sweep \<^verbatim>\<open>disposePeers\<close> met them when
  the sweep began. When the three conditions hold, the peer is removed from the list of
  peers and from the map of identified peers under its identity.
\<close>

theorem dispose_only_when_conditions_hold:
  "fst (tryDisposePeer s p) = disposalConditions s p \<and>
   (\<not> disposalConditions s p \<longrightarrow>
      snd (tryDisposePeer s p) = s) \<and>
   (q \<in> set (peers s) \<and> q \<notin> set (peers (snd (tryDisposePeer s p))) \<longrightarrow>
      q = p \<and> disposalConditions s p) \<and>
   (mapGet (identifiedPeers s) i = Some q \<and>
    mapGet (identifiedPeers (snd (tryDisposePeer s p))) i \<noteq> Some q \<longrightarrow>
      q = p \<and> disposalConditions s p) \<and>
   (q \<in> set (peers s) \<and> q \<notin> set (peers (disposePeers s)) \<longrightarrow>
      disposalConditions s q) \<and>
   (mapGet (identifiedPeers s) i = Some q \<and>
    mapGet (identifiedPeers (disposePeers s)) i \<noteq> Some q \<longrightarrow>
      disposalConditions s q) \<and>
   (disposalConditions s p \<longrightarrow>
      p \<notin> set (peers (snd (tryDisposePeer s p))) \<and>
      (\<forall>j. state_identity s p = Some j \<and> j \<noteq> [] \<longrightarrow>
           mapGet (identifiedPeers (snd (tryDisposePeer s p))) j \<noteq> Some p))"
proof -
  have a: "fst (tryDisposePeer s p) = disposalConditions s p"
    by (rule tryDisposePeer_fst)
  have b: "\<not> disposalConditions s p \<longrightarrow> snd (tryDisposePeer s p) = s"
    by (simp add: tryDisposePeer_fail)
  have c: "q \<in> set (peers s) \<and> q \<notin> set (peers (snd (tryDisposePeer s p))) \<longrightarrow>
      q = p \<and> disposalConditions s p"
    using tryDisposePeer_ok(3) [OF _ refl, of s p] tryDisposePeer_fail [of s p]
    by (cases "disposalConditions s p") auto
  have d: "mapGet (identifiedPeers s) i = Some q \<and>
      mapGet (identifiedPeers (snd (tryDisposePeer s p))) i \<noteq> Some q \<longrightarrow>
      q = p \<and> disposalConditions s p"
    using tryDisposePeer_ok(4) [OF _ refl, of s p i q] tryDisposePeer_fail [of s p]
    by (cases "disposalConditions s p") auto
  have e: "q \<in> set (peers s) \<and> q \<notin> set (peers (disposePeers s)) \<longrightarrow>
      disposalConditions s q"
    using sweepInv_disposePeers [of s] unfolding sweepInv_def by blast
  have f: "mapGet (identifiedPeers s) i = Some q \<and>
      mapGet (identifiedPeers (disposePeers s)) i \<noteq> Some q \<longrightarrow> disposalConditions s q"
    using sweepInv_disposePeers [of s] unfolding sweepInv_def by blast
  have g: "disposalConditions s p \<longrightarrow>
      p \<notin> set (peers (snd (tryDisposePeer s p))) \<and>
      (\<forall>j. state_identity s p = Some j \<and> j \<noteq> [] \<longrightarrow>
           mapGet (identifiedPeers (snd (tryDisposePeer s p))) j \<noteq> Some p)"
    using tryDisposePeer_ok(3) [OF _ refl, of s p] tryDisposePeer_gone [of s p]
    by auto
  from a b c d e f g show ?thesis by (intro conjI)
qed


theorem dispose_only_when_conditions_hold_witness:
  "fst (tryDisposePeer demo 23) = False \<and> snd (tryDisposePeer demo 23) = demo \<and>
   23 \<in> set (peers (disposePeers demo)) \<and>
   fst (tryDisposePeer demoStale 24) = True \<and>
   24 \<notin> set (peers (snd (tryDisposePeer demoStale 24))) \<and>
   mapGet (identifiedPeers (snd (tryDisposePeer demoStale 24))) idR \<noteq> Some 24"
proof -
  have n: "\<not> disposalConditions demo 23"
    by (simp add: demo_def demoPeers_def demoConnections_def demoConnection_def state_type_def
        connections_webSocket_def liveConn_def)
  have m: "23 \<in> set (peers demo)"
    by (simp add: demo_def)
  have r: "peerStore demoStale 24 =
      (freshPeer (Some idR))
        \<lparr>retries := (\<lambda>t d. \<lparr>neverRetry = True, cooldownUntil = 0, consecutiveFailures = 0\<rparr>)\<rparr>"
    by (simp add: demoStale_def)
  have y: "disposalConditions demoStale 24"
    by (simp add: r freshPeer_def state_type_def connections_webSocket_def
        connections_webRtc_def liveConn_def getConnectionRetry_def mapValues_def)
  have i: "state_identity demoStale 24 = Some idR" "idR \<noteq> []"
    by (simp_all add: r state_identity_def freshPeer_def idR_def)
  from dispose_only_when_conditions_hold [of demo 23 23 idA] n m
  have kept: "fst (tryDisposePeer demo 23) = False \<and> snd (tryDisposePeer demo 23) = demo \<and>
      23 \<in> set (peers (disposePeers demo))"
    by blast
  note stale = dispose_only_when_conditions_hold [of demoStale 24 24 idR]
  from stale y have "fst (tryDisposePeer demoStale 24) = True"
    by (metis (full_types))
  moreover from stale have "disposalConditions demoStale 24 \<longrightarrow>
      24 \<notin> set (peers (snd (tryDisposePeer demoStale 24))) \<and>
      (\<forall>j. state_identity demoStale 24 = Some j \<and> j \<noteq> [] \<longrightarrow>
           mapGet (identifiedPeers (snd (tryDisposePeer demoStale 24))) j \<noteq> Some 24)"
    by (elim conjE)
  ultimately show ?thesis
    using kept y i by simp
qed


section \<open>Bookkeeping of the store and the trace\<close>

lemma effects_fields [simp]:
  "trace (effects s es) = trace s @ es"
  "peerStore (effects s es) = peerStore s"
  "connStore (effects s es) = connStore s"
  "peers (effects s es) = peers s"
  "identifiedPeers (effects s es) = identifiedPeers s"
  "localPeer (effects s es) = localPeer s"
  "nextConn (effects s es) = nextConn s"
  "nextPeer (effects s es) = nextPeer s"
  "maxPeers (effects s es) = maxPeers s"
  by (simp_all add: effects_def)

lemma updPeer_fields [simp]:
  "trace (updPeer s p f) = trace s"
  "peerStore (updPeer s p f) = (peerStore s)(p := f (peerStore s p))"
  "connStore (updPeer s p f) = connStore s"
  "peers (updPeer s p f) = peers s"
  "identifiedPeers (updPeer s p f) = identifiedPeers s"
  "localPeer (updPeer s p f) = localPeer s"
  "nextConn (updPeer s p f) = nextConn s"
  "nextPeer (updPeer s p f) = nextPeer s"
  "maxPeers (updPeer s p f) = maxPeers s"
  by (simp_all add: updPeer_def)

lemma updConn_fields [simp]:
  "trace (updConn s c f) = trace s"
  "peerStore (updConn s c f) = peerStore s"
  "connStore (updConn s c f) = (connStore s)(c := f (connStore s c))"
  "peers (updConn s c f) = peers s"
  "identifiedPeers (updConn s c f) = identifiedPeers s"
  "localPeer (updConn s c f) = localPeer s"
  "nextConn (updConn s c f) = nextConn s"
  "nextPeer (updConn s c f) = nextPeer s"
  "maxPeers (updConn s c f) = maxPeers s"
  by (simp_all add: updConn_def)

lemma emitted_append: "trace s' = trace s @ es \<Longrightarrow> emitted s s' = es"
  by (simp add: emitted_def)

lemma connection_close_fields [simp]:
  "trace (connection_close s c err) = trace s @ [ConnClose c err]"
  "peerStore (connection_close s c err) = peerStore s"
  "connStore (connection_close s c err) = (connStore s)(c := (connStore s c)\<lparr>cstate := DISCONNECTED\<rparr>)"
  "peers (connection_close s c err) = peers s"
  "identifiedPeers (connection_close s c err) = identifiedPeers s"
  "localPeer (connection_close s c err) = localPeer s"
  "nextConn (connection_close s c err) = nextConn s"
  "nextPeer (connection_close s c err) = nextPeer s"
  by (simp_all add: connection_close_def)

section \<open>Messages of the application\<close>

lemma peer_close_trace:
  "\<exists>cs. trace (peer_close s p err) = trace s @ PeerClose p err # map (\<lambda>c. ConnClose c err) cs"
proof -
  have a: "[ConnClose c err] = map (\<lambda>c. ConnClose c err) [c]" for c by simp
  have b: "[ConnClose c err, ConnClose d err] = map (\<lambda>c. ConnClose c err) [c, d]" for c d by simp
  have e: "[] = map (\<lambda>c. ConnClose c err) []" by simp
  show ?thesis
    unfolding peer_close_def Let_def
    by (auto split: option.splits intro: exI [of _ "[]"] a b)
qed

lemma peer_close_disconnects: "state_type (peer_close s p err) p = PEER_DISCONNECTED"
  by (auto simp: peer_close_def Let_def state_type_def connections_webSocket_def
      connections_webRtc_def liveConn_def split: option.splits if_splits)

lemma peer_close_no_message:
  "\<not> list_ex isOnMessage (emitted s (peer_close s p err))"
proof -
  obtain cs where "trace (peer_close s p err) = trace s @ PeerClose p err # map (\<lambda>c. ConnClose c err) cs"
    using peer_close_trace by blast
  then have "emitted s (peer_close s p err) = PeerClose p err # map (\<lambda>c. ConnClose c err) cs"
    by (rule emitted_append)
  then show ?thesis by (simp add: list_ex_iff)
qed

text \<open>
  Claim C8. A message that is none of \<open>Disconnecting\<close>, \<open>Identify\<close>,
  \<open>SignalRequest\<close>, \<open>Signal\<close>, \<open>PeerList\<close> and arrives on a connection that is not
  in \<open>WAITING_FOR_IDENTITY\<close>: when the peer has an identity, the message is emitted on
  \<^verbatim>\<open>onMessage\<close> with that identity, and nothing else happens; when the identity of the
  peer is null, the peer is closed, which leaves it \<open>DISCONNECTED\<close>, and no effect of
  the run is an emission on \<^verbatim>\<open>onMessage\<close>.
\<close>

theorem other_messages_emitted_or_peer_closed:
  assumes "cstate (connStore s connection) \<noteq> WAITING_FOR_IDENTITY"
  shows "(\<forall>i. state_identity s peer = Some i \<longrightarrow>
            handleMessage E s now peer connection (Application ty) =
              effects s [Emit (OnMessage peer i (Application ty))]) \<and>
         (state_identity s peer = None \<longrightarrow>
            handleMessage E s now peer connection (Application ty) = peer_close s peer None \<and>
            state_type (handleMessage E s now peer connection (Application ty)) peer =
              PEER_DISCONNECTED \<and>
            \<not> list_ex isOnMessage
                (emitted s (handleMessage E s now peer connection (Application ty))))"
  using assms
  by (simp add: handleMessage_def peer_close_disconnects peer_close_no_message)


lemma demo_conn_states:
  "cstate (connStore demo 11) = CONNECTED idA"
  "cstate (connStore demo 12) = CONNECTED idZ"
  "cstate (connStore demo 13) = WAITING_FOR_IDENTITY"
  "cstate (connStore demo 14) = WAITING_FOR_IDENTITY"
  by (simp_all add: demo_def demoConnections_def demoConnection_def)

lemma demo_identities:
  "state_identity demo 21 = Some idA"
  "state_identity demo 22 = Some idZ"
  "state_identity demo 23 = None"
  by (simp_all add: demo_def demoPeers_def state_identity_def freshPeer_def)

theorem other_messages_emitted_or_peer_closed_witness:
  "handleMessage demoImports demo 0 21 11 (Application ''newBlock'') =
     effects demo [Emit (OnMessage 21 idA (Application ''newBlock''))] \<and>
   handleMessage demoImports demo 0 23 12 (Application ''newBlock'') = peer_close demo 23 None"
proof -
  have a: "cstate (connStore demo 11) \<noteq> WAITING_FOR_IDENTITY"
    and b: "cstate (connStore demo 12) \<noteq> WAITING_FOR_IDENTITY"
    by (simp_all add: demo_conn_states)
  from other_messages_emitted_or_peer_closed [OF a, of 21 demoImports 0 "''newBlock''"]
    other_messages_emitted_or_peer_closed [OF b, of 23 demoImports 0 "''newBlock''"]
    demo_identities
  show ?thesis by blast
qed

section \<open>Dialling an address\<close>

lemma peer_setWebSocketConnection_peers [simp]:
  "peers (peer_setWebSocketConnection s p c) = peers s"
  by (simp add: peer_setWebSocketConnection_def Let_def split: option.splits)

lemma initWebSocketConnection_peers [simp]:
  "peers (snd (initWebSocketConnection s p d h n)) = peers s"
  by (simp add: initWebSocketConnection_def newConnection_def initConnectionHandlers_def
      connection_send_def Let_def)

lemma connectToWebSocket_peers [simp]: "peers (snd (connectToWebSocket E s now p)) = peers s"
  by (simp add: connectToWebSocket_def failedConnection_def updRetry_def Let_def
      split: option.splits prod.splits)

lemma getOrCreatePeer_None:
  "getOrCreatePeer s None =
     (nextPeer s,
      s\<lparr>peerStore := (peerStore s)
           (nextPeer s := (freshPeer None)\<lparr>identifyWhenConnected := True, subscribed := True\<rparr>),
        nextPeer := Suc (nextPeer s), peers := peers s @ [nextPeer s]\<rparr>)"
  by (simp add: getOrCreatePeer_def Let_def)

text \<open>
  Claim C9. \<^verbatim>\<open>connectToWebSocketAddress(uri)\<close> throws when the hostname of the URI
  cannot be parsed (it is null or empty), and the manager is then exactly as before the
  call: no peer record has been created, the list of peers and the map of identified
  peers are unchanged. When the hostname can be parsed, the call returns the peer it has
  created and appended to the list of peers.
\<close>

theorem connect_throws_before_any_change:
  "(\<not> truthy (urlHostname (parseUrl E uri)) \<longrightarrow>
      connectToWebSocketAddress E s now uri w = (Inl (Error (HostnameNotParseable uri)), s)) \<and>
   (truthy (urlHostname (parseUrl E uri)) \<longrightarrow>
      fst (connectToWebSocketAddress E s now uri w) = Inr (nextPeer s) \<and>
      peers (snd (connectToWebSocketAddress E s now uri w)) = peers s @ [nextPeer s])"
  by (simp add: connectToWebSocketAddress_def Let_def getOrCreatePeer_None
      peer_setWebSocketAddress_def)

theorem connect_throws_before_any_change_witness:
  "connectToWebSocketAddress demoImports demo 0 ''node.example'' False =
     (Inl (Error (HostnameNotParseable ''node.example'')), demo) \<and>
   fst (connectToWebSocketAddress demoImports demo 0 ''ws://node.example:9033'' False) = Inr 24"
proof -
  have a: "\<not> truthy (urlHostname (parseUrl demoImports ''node.example''))"
    by (simp add: demoImports_def truthy_def)
  have b: "truthy (urlHostname (parseUrl demoImports ''ws://node.example:9033''))"
    by (simp add: demoImports_def truthy_def)
  have c: "nextPeer demo = 24" by (simp add: demo_def)
  from connect_throws_before_any_change [of demoImports "''node.example''" demo 0 False]
    connect_throws_before_any_change [of demoImports "''ws://node.example:9033''" demo 0 False]
    a b c
  show ?thesis by simp
qed


section \<open>Relaying\<close>

lemma relay_signal:
  "dst \<noteq> publicIdentity (localPeer s) \<Longrightarrow>
   handleSignalMessage E s sender src dst nonce boxed =
     (case getPeer s dst of
        None \<Rightarrow> s
      | Some d \<Rightarrow>
          if state_identity s sender = Some src
          then effects s [PeerSend d (Signal src dst nonce boxed)] else s)"
  by (auto simp: handleSignalMessage_def sendTo_def peer_send_def split: option.splits)

lemma relay_signalRequest:
  "dst \<noteq> publicIdentity (localPeer s) \<Longrightarrow>
   handleSignalRequestMessage E s sender src dst =
     (case getPeer s dst of
        None \<Rightarrow> s
      | Some d \<Rightarrow>
          if state_identity s sender = Some src \<and> \<not> canInitiateWebRTC E src dst
          then effects s [PeerSend d (SignalRequest src dst)] else s)"
  by (auto simp: handleSignalRequestMessage_def sendTo_def peer_send_def split: option.splits)

lemma relay_disconnecting:
  "dst \<noteq> publicIdentity (localPeer s) \<Longrightarrow>
   handleDisconnectingMessage s sender src (Some dst) r until =
     (case getPeer s dst of
        None \<Rightarrow> s
      | Some d \<Rightarrow>
          if state_identity s sender = Some src
          then effects s [PeerSend d (Disconnecting src (Some dst) r until)] else s)"
  by (auto simp: handleDisconnectingMessage_def Let_def sendTo_def peer_send_def
      split: option.splits)

lemma identityLess_demo:
  "identityLess idA idZ" "identityLess idA idM" "identityLess idM idZ"
  "\<not> identityLess idZ idA" "\<not> identityLess idM idA" "\<not> identityLess idZ idM"
  by (simp_all add: idA_def idM_def idZ_def)

lemma demo_ids_distinct:
  "idA \<noteq> idM" "idA \<noteq> idZ" "idM \<noteq> idZ" "idM \<noteq> idA" "idZ \<noteq> idA" "idZ \<noteq> idM"
  by (simp_all add: idA_def idM_def idZ_def)

lemma demo_getPeer:
  "getPeer demo idA = Some 21" "getPeer demo idZ = Some 22" "getPeer demo idM = None"
  by (simp_all add: getPeer_def mapGet_def demo_def demo_ids_distinct)

lemma demo_local: "publicIdentity (localPeer demo) = idM"
  by (simp add: demo_def demoLocalPeer_def)

text \<open>
  Claim C2 as stated fails for a \<open>SignalRequest\<close>: in the small network, peer 21 (\<open>A\<close>)
  sends a request from \<open>A\<close> to \<open>Z\<close>, which is not the local identity; the source is the
  sender and \<open>Z\<close> is an identified peer, yet nothing is sent, because
  \<^verbatim>\<open>canInitiateWebRTC(A, Z)\<close> holds and the handler returns before it relays (lines 1030
  to 1041).
\<close>

theorem signalRequest_not_relayed_counterexample:
  "idZ \<noteq> publicIdentity (localPeer demo) \<and> state_identity demo 21 = Some idA \<and>
   getPeer demo idZ = Some 22 \<and>
   handleSignalRequestMessage demoImports demo 21 idA idZ = demo"
  by (simp add: demo_local demo_ids_distinct demo_identities demo_getPeer
      handleSignalRequestMessage_def demoImports_def identityLess_demo)

text \<open>
  Claim C2, amended. For a message whose destination is an identity other than the local
  one: a \<open>Signal\<close> and a \<open>Disconnecting\<close> are handed unchanged to the destination peer
  iff the source of the message is the identity of the peer it came from and the
  destination is in \<^verbatim>\<open>identifiedPeers\<close>; a \<open>SignalRequest\<close> iff, moreover,
  \<^verbatim>\<open>canInitiateWebRTC(source, destination)\<close> is false. In every other case the manager is
  left as it was, so nothing is sent to anyone. A \<open>Disconnecting\<close> whose destination is
  null is handled as one addressed to the local peer: the request is recorded on the
  sender and the sender is closed.
\<close>

theorem relay_iff_origin_and_known_destination:
  assumes "dst \<noteq> publicIdentity (localPeer s)"
  shows "handleSignalMessage E s sender src dst nonce boxed =
           (case getPeer s dst of
              None \<Rightarrow> s
            | Some d \<Rightarrow>
                if state_identity s sender = Some src
                then effects s [PeerSend d (Signal src dst nonce boxed)] else s) \<and>
         handleDisconnectingMessage s sender src (Some dst) r until =
           (case getPeer s dst of
              None \<Rightarrow> s
            | Some d \<Rightarrow>
                if state_identity s sender = Some src
                then effects s [PeerSend d (Disconnecting src (Some dst) r until)] else s) \<and>
         handleSignalRequestMessage E s sender src dst =
           (case getPeer s dst of
              None \<Rightarrow> s
            | Some d \<Rightarrow>
                if state_identity s sender = Some src \<and> \<not> canInitiateWebRTC E src dst
                then effects s [PeerSend d (SignalRequest src dst)] else s) \<and>
         handleDisconnectingMessage s sender src None r until =
           peer_close
             (updPeer s sender
                (\<lambda>x. x\<lparr>peerRequestedDisconnectReason := Some r,
                       peerRequestedDisconnectUntil := Some until\<rparr>))
             sender None"
  using relay_signal [OF assms] relay_disconnecting [OF assms] relay_signalRequest [OF assms]
  by (simp add: handleDisconnectingMessage_def Let_def)

theorem relay_iff_origin_and_known_destination_witness:
  "handleSignalMessage demoImports demo 21 idA idZ ''n1'' ''offer'' =
     effects demo [PeerSend 22 (Signal idA idZ ''n1'' ''offer'')] \<and>
   handleSignalMessage demoImports demo 22 idA idZ ''n1'' ''offer'' = demo \<and>
   handleSignalRequestMessage demoImports demo 22 idZ idA =
     effects demo [PeerSend 21 (SignalRequest idZ idA)]"
proof -
  have z: "idZ \<noteq> publicIdentity (localPeer demo)" and a: "idA \<noteq> publicIdentity (localPeer demo)"
    by (simp_all add: demo_local demo_ids_distinct)
  have c: "\<not> canInitiateWebRTC demoImports idZ idA"
    by (simp add: demoImports_def identityLess_demo)
  from relay_iff_origin_and_known_destination [OF z, of demoImports 21 idA "''n1''" "''offer''"]
    relay_iff_origin_and_known_destination [OF z, of demoImports 22 idA "''n1''" "''offer''"]
    relay_iff_origin_and_known_destination [OF a, of demoImports 22 idZ]
    c
  show ?thesis
    by (simp add: demo_getPeer demo_identities demo_ids_distinct)
qed


section \<open>Congestion\<close>

lemma demo_state_types:
  "state_type demo 21 = PEER_CONNECTED"
  "state_type demo 22 = PEER_CONNECTED"
  "state_type demo 23 = PEER_CONNECTING"
  by (simp_all add: state_type_def connections_webSocket_def connections_webRtc_def
      liveConn_def slotConnected_def isConnectedState_def demo_def demoPeers_def
      demoConnections_def demoConnection_def freshPeer_def)

lemma state_type_maxPeers [simp]: "state_type (s\<lparr>maxPeers := n\<rparr>) p = state_type s p"
  by (rule state_type_cong) simp_all

lemma demo_fields:
  "peers demo = [21, 22, 23]"
  "identifiedPeers demo = [(idA, 21), (idZ, 22)]"
  "localPeer demo = demoLocalPeer"
  "maxPeers demo = 10000"
  "nextPeer demo = 24"
  "nextConn demo = 15"
  "trace demo = []"
  "peerStore demo = demoPeers"
  "connStore demo = demoConnections"
  by (simp_all add: demo_def)

lemma demoCongested_full: "shouldRejectDisconnectedPeers demoCongested"
  by (simp add: shouldRejectDisconnectedPeers_def getPeersWithConnection_def demoCongested_def
      demo_state_types demo_fields)

lemma demoCongested_facts:
  "publicIdentity (localPeer demoCongested) = idM"
  "getPeer demoCongested idB = None"
  "getPeer demoCongested idR = None"
  by (simp_all add: demoCongested_def demo_def demoLocalPeer_def getPeer_def mapGet_def
      idA_def idB_def idZ_def idR_def)

lemma identityLess_idB: "identityLess idB idM" "\<not> identityLess idR idM"
  by (simp_all add: idB_def idM_def idR_def)

text \<open>
  Claim C5 as stated fails: the congested network receives through peer 22 a
  \<open>SignalRequest\<close> from \<open>B\<close>, which is no connected peer, to the local identity \<open>M\<close>.
  \<^verbatim>\<open>canInitiateWebRTC(B, M)\<close> holds, the handler returns at once (lines 1030 to 1041)
  and no \<open>Disconnecting\<close> is sent: the manager is left as it was.
\<close>

theorem congested_request_dropped_counterexample:
  "maxPeers demoCongested \<le> length (getPeersWithConnection demoCongested) \<and>
   getPeer demoCongested idB = None \<and>
   publicIdentity (localPeer demoCongested) = idM \<and>
   handleSignalRequestMessage demoImports demoCongested 22 idB idM = demoCongested"
  using demoCongested_full
  by (simp add: shouldRejectDisconnectedPeers_def demoCongested_facts
      handleSignalRequestMessage_def demoImports_def identityLess_idB)

text \<open>
  Claim C5, amended. When a \<open>SignalRequest\<close> addressed to the local peer arrives while
  \<^verbatim>\<open>getPeersWithConnection().length >= maxPeers\<close>, its source is not a \<open>CONNECTED\<close>
  peer and \<^verbatim>\<open>canInitiateWebRTC(source, local)\<close> is false, the manager hands to the
  sender of the message a \<open>Disconnecting\<close> from the local identity to the source with the
  reason \<open>Congested\<close> and \<^verbatim>\<open>disconnectUntil\<close> 300000, and does nothing else: the peers,
  the identified peers and the stores of peers and connections are unchanged.
\<close>

theorem congested_request_rejected:
  assumes "maxPeers s \<le> length (getPeersWithConnection s)"
    and "\<forall>p. getPeer s src = Some p \<longrightarrow> state_type s p \<noteq> PEER_CONNECTED"
    and "\<not> canInitiateWebRTC E src (publicIdentity (localPeer s))"
  shows "handleSignalRequestMessage E s sender src (publicIdentity (localPeer s)) =
           effects s [PeerSend sender
             (Disconnecting (publicIdentity (localPeer s)) (Some src) Congested 300000)] \<and>
         peers (handleSignalRequestMessage E s sender src (publicIdentity (localPeer s))) =
           peers s \<and>
         identifiedPeers (handleSignalRequestMessage E s sender src (publicIdentity (localPeer s))) =
           identifiedPeers s \<and>
         peerStore (handleSignalRequestMessage E s sender src (publicIdentity (localPeer s))) =
           peerStore s \<and>
         connStore (handleSignalRequestMessage E s sender src (publicIdentity (localPeer s))) =
           connStore s"
proof -
  have "handleSignalRequestMessage E s sender src (publicIdentity (localPeer s)) =
      effects s [PeerSend sender
        (Disconnecting (publicIdentity (localPeer s)) (Some src) Congested 300000)]"
    using assms
    by (auto simp: handleSignalRequestMessage_def shouldRejectDisconnectedPeers_def
        peer_send_def split: option.splits)
  then show ?thesis by simp
qed

theorem congested_request_rejected_witness:
  "handleSignalRequestMessage demoImports demoCongested 22 idR idM =
     effects demoCongested [PeerSend 22 (Disconnecting idM (Some idR) Congested 300000)]"
proof -
  have a: "maxPeers demoCongested \<le> length (getPeersWithConnection demoCongested)"
    using demoCongested_full by (simp add: shouldRejectDisconnectedPeers_def)
  have b: "\<forall>p. getPeer demoCongested idR = Some p \<longrightarrow> state_type demoCongested p \<noteq> PEER_CONNECTED"
    by (simp add: demoCongested_facts)
  have c: "\<not> canInitiateWebRTC demoImports idR (publicIdentity (localPeer demoCongested))"
    by (simp add: demoCongested_facts demoImports_def identityLess_idB)
  from congested_request_rejected [OF a b c, of 22] show ?thesis
    by (simp add: demoCongested_facts)
qed

section \<open>The broadcast of the peer list\<close>

lemma state_type_effects [simp]: "state_type (effects s es) p = state_type s p"
  by (rule state_type_cong) simp_all

lemma effects_effects [simp]: "effects (effects s es) fs = effects s (es @ fs)"
  by (simp add: effects_def)

lemma effects_Nil [simp]: "effects s [] = s"
  by (simp add: effects_def)

lemma broadcast_fold:
  "fold (\<lambda>peer t. if state_type t peer = PEER_CONNECTED then peer_send t peer m else t) xs
     (effects s es) =
   effects s (es @ map (\<lambda>p. PeerSend p m) (filter (\<lambda>p. state_type s p = PEER_CONNECTED) xs))"
  by (induction xs arbitrary: es) (simp_all add: peer_send_def)

lemma broadcast_eq: "broadcast s m = effects s (map (\<lambda>p. PeerSend p m) (getConnectedPeers s))"
  using broadcast_fold [of m "mapValues (identifiedPeers s)" s "[]"]
  by (simp add: broadcast_def getConnectedPeers_def)

text \<open>
  Claim C3 as stated fails: in the small network the peers 21 (\<open>A\<close>) and 22 (\<open>Z\<close>) are
  connected, and the list that \<^verbatim>\<open>broadcastPeerList\<close> sends to peer 21 names \<open>A\<close>, the
  recipient itself.
\<close>

theorem peer_list_includes_recipient_counterexample:
  "state_identity demo 21 = Some idA \<and>
   trace (broadcastPeerList demo) =
     [PeerSend 21 (PeerList
        [\<lparr>entryIdentity = idA, entryName = None, entryAddress = Some ''10.0.0.1'',
           entryPort = Some 9033\<rparr>,
         \<lparr>entryIdentity = idZ, entryName = None, entryAddress = Some ''10.0.0.2'',
           entryPort = Some 9033\<rparr>]),
      PeerSend 22 (PeerList
        [\<lparr>entryIdentity = idA, entryName = None, entryAddress = Some ''10.0.0.1'',
           entryPort = Some 9033\<rparr>,
         \<lparr>entryIdentity = idZ, entryName = None, entryAddress = Some ''10.0.0.2'',
           entryPort = Some 9033\<rparr>])]"
  by (simp add: broadcastPeerList_def broadcast_eq getConnectedPeers_def mapValues_def
      demo_identities demo_fields demo_state_types peerListEntry_def idOf_def
      demoPeers_def freshPeer_def orNull_def truthy_def demoLocalPeer_def Let_def)

text \<open>
  Claim C3, amended. \<^verbatim>\<open>start\<close> installs \<^verbatim>\<open>broadcastPeerList\<close> with a period of 5000
  milliseconds. One run sends to every \<open>CONNECTED\<close> identified peer, in the order of
  \<^verbatim>\<open>identifiedPeers\<close>, the same \<open>PeerList\<close>: the entries of all \<open>CONNECTED\<close> identified
  peers but the workers (the workers too when \<^verbatim>\<open>broadcastWorkers\<close> is set). The list a
  peer receives therefore names that peer itself unless it is a worker left out.
\<close>

theorem broadcast_same_list_to_every_connected_peer:
  "broadcastPeerListHandle (start s) = Some (BroadcastPeerListTimer, 5000) \<and>
   timerCallback s BroadcastPeerListTimer = broadcastPeerList s \<and>
   broadcastPeerList s =
     effects s
       (map (\<lambda>p. PeerSend p
               (PeerList
                  (map (peerListEntry s)
                     (filter (\<lambda>q. \<not> (isWorker (peerStore s q) \<and> \<not> broadcastWorkers (localPeer s)))
                        (getConnectedPeers s)))))
          (getConnectedPeers s))"
  by (simp add: start_def timerCallback_def broadcastPeerList_def broadcast_eq
      getConnectedPeers_def conj_commute)

theorem broadcast_same_list_to_every_connected_peer_witness:
  "broadcastPeerListHandle (start demo) = Some (BroadcastPeerListTimer, 5000) \<and>
   timerCallback demo BroadcastPeerListTimer =
     effects demo
       (map (\<lambda>p. PeerSend p (PeerList (map (peerListEntry demo) [21, 22]))) [21, 22])"
proof -
  have "getConnectedPeers demo = [21, 22]"
    by (simp add: getConnectedPeers_def mapValues_def demo_fields demo_state_types)
  moreover have "\<not> isWorker (peerStore demo 21)" "\<not> isWorker (peerStore demo 22)"
    by (simp_all add: demo_fields demoPeers_def freshPeer_def)
  ultimately show ?thesis
    using broadcast_same_list_to_every_connected_peer [of demo] by simp
qed



section \<open>The handshake: a connection from the local identity\<close>

lemma tryDisposePeer_trace:
  "trace (snd (tryDisposePeer s p)) =
     trace s @ (if disposalConditions s p then [PeerDispose p] else [])"
  using tryDisposePeer_fst [of s p]
  by (auto simp: tryDisposePeer_def Let_def peer_dispose_def split: option.splits)

lemma own_identity_core:
  assumes valid: "isIdentity E (publicIdentity (localPeer s))"
    and compat: "versionsAreCompatible (localVersion (localPeer s)) (parseVersion E vs)"
    and short: "\<forall>x. orNull nm = Some x \<longrightarrow> length x \<le> 32"
    and s': "s' = handleWaitingForIdentityMessage E s now peer c
                    (Identify (publicIdentity (localPeer s)) vs n nm w)"
    and t: "t = ctype (connStore s c)" and d: "d = direction (connStore s c)"
  shows "webSocket (peerStore s' peer) \<noteq> Some c \<and> webRtc (peerStore s' peer) \<noteq> Some c \<and>
         cstate (connStore s' c) = DISCONNECTED \<and>
         ConnClose c (Some (NetworkError (ClosingOwnIdentity t))) \<in> set (emitted s s') \<and>
         neverRetry (getConnectionRetry s' peer t d) \<and>
         (t = WebSocket \<and> d = Outbound \<longrightarrow>
            address (peerStore s' peer) = None \<and> port (peerStore s' peer) = None) \<and>
         (\<not> (t = WebSocket \<and> d = Outbound) \<longrightarrow>
            address (peerStore s' peer) = address (peerStore s peer) \<and>
            port (peerStore s' peer) = port (peerStore s peer)) \<and>
         (disposalConditions s' peer \<longrightarrow> peer \<notin> set (peers s'))"
proof -
  define s4 where "s4 =
    connection_close
      (let s2 = neverRetryConnecting (peer_removeConnection s peer c) peer t d
       in if t = WebSocket \<and> d = Outbound then peer_setWebSocketAddress s2 peer None None else s2)
      c (Some (NetworkError (ClosingOwnIdentity t)))"
  have short': "\<not> (case orNull nm of None \<Rightarrow> False | Some x \<Rightarrow> 32 < length x)"
    using short by (auto split: option.splits)
  have eq: "s' = snd (tryDisposePeer s4 peer)"
    unfolding s' handleWaitingForIdentityMessage_def s4_def
    using valid compat short' by (simp add: Let_def t d)
  have a: "webSocket (peerStore s4 peer) \<noteq> Some c" "webRtc (peerStore s4 peer) \<noteq> Some c"
    "cstate (connStore s4 c) = DISCONNECTED"
    "trace s4 = trace s @ [ConnClose c (Some (NetworkError (ClosingOwnIdentity t)))]"
    "neverRetry (getConnectionRetry s4 peer t d)"
    "t = WebSocket \<and> d = Outbound \<longrightarrow>
       address (peerStore s4 peer) = None \<and> port (peerStore s4 peer) = None"
    "\<not> (t = WebSocket \<and> d = Outbound) \<longrightarrow>
       address (peerStore s4 peer) = address (peerStore s peer) \<and>
       port (peerStore s4 peer) = port (peerStore s peer)"
    by (auto simp: s4_def Let_def neverRetryConnecting_def updRetry_def peer_removeConnection_def
        peer_setWebSocketAddress_def getConnectionRetry_def)
  show ?thesis
  proof (cases "disposalConditions s4 peer")
    case False
    then have "s' = s4" using eq by (simp add: tryDisposePeer_fail)
    moreover have "emitted s s4 = [ConnClose c (Some (NetworkError (ClosingOwnIdentity t)))]"
      using a(4) by (rule emitted_append)
    ultimately show ?thesis using a False by auto
  next
    case True
    note ok = tryDisposePeer_ok [OF True eq]
    have tr: "trace s' = trace s @ [ConnClose c (Some (NetworkError (ClosingOwnIdentity t))),
        PeerDispose peer]"
      using tryDisposePeer_trace [of s4 peer] True eq a(4) by simp
    have "peer \<notin> set (peers s')" using ok(3) by simp
    moreover have "cstate (connStore s' c) = DISCONNECTED" using ok(1) a(3) by simp
    moreover have "peerStore s' peer = disposedRecord (peerStore s4 peer)" using ok(2) by simp
    ultimately show ?thesis
      using a tr by (simp add: emitted_def disposedRecord_def getConnectionRetry_def)
  qed
qed


lemma demo_conn_14:
  "ctype (connStore demo 14) = WebRtc" "direction (connStore demo 14) = Inbound"
  by (simp_all add: demo_fields demoConnections_def demoConnection_def)

lemma demo_handshake_inputs:
  "isIdentity demoImports idM" "isIdentity demoImports idA"
  "versionsAreCompatible (localVersion (localPeer demo)) (parseVersion demoImports ''sdk/1/cli'')"
  "\<forall>x. orNull None = Some x \<longrightarrow> length x \<le> 32"
  by (simp_all add: demoImports_def idM_def idA_def versionsAreCompatible_def demo_fields
      demoLocalPeer_def orNull_def truthy_def)

text \<open>
  Claim C4 as stated fails: in the small network the inbound WebRTC connection 14 of
  peer 22, whose address is \<^verbatim>\<open>10.0.0.2\<close>, sends an \<open>Identify\<close> with the local identity
  \<open>M\<close>. After the handshake the address of peer 22 is still \<^verbatim>\<open>10.0.0.2\<close>: it is
  cleared for an outbound WebSocket connection only (lines 894 to 899).
\<close>

theorem own_identity_keeps_address_counterexample:
  "publicIdentity (localPeer demo) = idM \<and>
   direction (connStore demo 14) = Inbound \<and>
   address (peerStore demo 22) = Some ''10.0.0.2'' \<and>
   address (peerStore
     (handleWaitingForIdentityMessage demoImports demo 0 22 14
        (Identify idM ''sdk/1/cli'' None None None)) 22) = Some ''10.0.0.2''"
proof -
  have l: "publicIdentity (localPeer demo) = idM"
    by (simp add: demo_fields demoLocalPeer_def)
  have a: "address (peerStore demo 22) = Some ''10.0.0.2''"
    by (simp add: demo_fields demoPeers_def)
  from own_identity_core [of demoImports demo "''sdk/1/cli''" None _ 0 22 14 None None,
      OF _ _ _ refl refl refl]
    demo_handshake_inputs demo_conn_14 l a
  show ?thesis by simp
qed

text \<open>
  Claim C4, amended. When an \<open>Identify\<close> that passes the checks of format, version and
  name claims the identity of the local peer, then for a connection of any transport and
  direction: the connection has left the slots of the peer and is closed with the
  \<open>NetworkError\<close> of a connection from the own identity, the retry state of the peer for
  the transport and direction of the connection is marked never to retry, and the
  disposal of the peer has been attempted (a peer that meets the conditions for disposal
  is no longer in the list of peers). The WebSocket address and port of the peer are
  cleared when the connection is an outbound WebSocket connection, and are left as they
  were for every other connection, an inbound one in particular.
\<close>

theorem own_identity_connection_torn_down:
  assumes "isIdentity E (publicIdentity (localPeer s))"
    and "versionsAreCompatible (localVersion (localPeer s)) (parseVersion E vs)"
    and "\<forall>x. orNull nm = Some x \<longrightarrow> length x \<le> 32"
    and "s' = handleWaitingForIdentityMessage E s now peer c
                (Identify (publicIdentity (localPeer s)) vs n nm w)"
    and "t = ctype (connStore s c)" and "d = direction (connStore s c)"
  shows "webSocket (peerStore s' peer) \<noteq> Some c \<and> webRtc (peerStore s' peer) \<noteq> Some c \<and>
         cstate (connStore s' c) = DISCONNECTED \<and>
         ConnClose c (Some (NetworkError (ClosingOwnIdentity t))) \<in> set (emitted s s') \<and>
         neverRetry (getConnectionRetry s' peer t d) \<and>
         (t = WebSocket \<and> d = Outbound \<longrightarrow>
            address (peerStore s' peer) = None \<and> port (peerStore s' peer) = None) \<and>
         (\<not> (t = WebSocket \<and> d = Outbound) \<longrightarrow>
            address (peerStore s' peer) = address (peerStore s peer) \<and>
            port (peerStore s' peer) = port (peerStore s peer)) \<and>
         (disposalConditions s' peer \<longrightarrow> peer \<notin> set (peers s'))"
  using assms by (rule own_identity_core)

theorem own_identity_connection_torn_down_witness:
  "cstate (connStore
     (handleWaitingForIdentityMessage demoImports demo 0 22 14
        (Identify idM ''sdk/1/cli'' None None None)) 14) = DISCONNECTED \<and>
   neverRetry (getConnectionRetry
     (handleWaitingForIdentityMessage demoImports demo 0 22 14
        (Identify idM ''sdk/1/cli'' None None None)) 22 WebRtc Inbound) \<and>
   webRtc (peerStore
     (handleWaitingForIdentityMessage demoImports demo 0 22 14
        (Identify idM ''sdk/1/cli'' None None None)) 22) \<noteq> Some 14"
proof -
  have l: "publicIdentity (localPeer demo) = idM"
    by (simp add: demo_fields demoLocalPeer_def)
  from own_identity_connection_torn_down
      [of demoImports demo "''sdk/1/cli''" None _ 0 22 14 None None,
      OF _ _ _ refl refl refl]
    demo_handshake_inputs demo_conn_14 l
  show ?thesis by simp
qed


section \<open>The handshake: duplicate connections\<close>

lemma duplicateCloses_append:
  "duplicateCloses (es @ fs) = duplicateCloses es @ duplicateCloses fs"
  by (induction es rule: duplicateCloses.induct) simp_all

lemma fold_updPeer_trace [simp]: "trace (fold (\<lambda>p t. updPeer t p (f p)) xs s) = trace s"
  by (induction xs arbitrary: s) simp_all

lemma fold_updPeer_connStore [simp]:
  "connStore (fold (\<lambda>p t. updPeer t p (f p)) xs s) = connStore s"
  by (induction xs arbitrary: s) simp_all
























section \<open>Signals addressed to the local peer\<close>

lemma sameConnections_refl: "sameConnections s s"
  by (simp add: sameConnections_def)

lemma sameConnections_trans:
  "sameConnections s t \<Longrightarrow> sameConnections t u \<Longrightarrow> sameConnections s u"
  unfolding sameConnections_def
  by (elim conjE exE) (auto simp: list_ex_iff)

lemma sameConnections_addEdge: "sameConnections s (addEdge s peer addTo e)"
  by (auto simp: sameConnections_def addEdge_def Let_def peer_emitKnownPeersChanged_def)

lemma sameConnections_addKnownPeerTo: "sameConnections s (addKnownPeerTo s peer addTo e)"
proof (induction s peer addTo e rule: addKnownPeerTo.induct)
  case (1 s peer addTo e)
  show ?case
  proof (cases "\<not> (\<not> truthy (state_identity s peer) \<or> \<not> truthy (state_identity s addTo)) \<and>
      state_identity s peer \<noteq> state_identity s addTo \<and>
      \<not> mapHas (knownPeers (peerStore (addEdge s peer addTo e) peer))
          (idOf (addEdge s peer addTo e) addTo)")
    case True
    then have "sameConnections (addEdge s peer addTo e)
        (addKnownPeerTo (addEdge s peer addTo e) addTo peer True)"
      using "1.IH" by blast
    then have "sameConnections s (addKnownPeerTo (addEdge s peer addTo e) addTo peer True)"
      using sameConnections_addEdge sameConnections_trans by blast
    then show ?thesis
      using True by (subst addKnownPeerTo.simps) simp
  next
    case False
    then show ?thesis
      using sameConnections_addEdge [of s peer addTo e] sameConnections_refl [of s]
      by (subst addKnownPeerTo.simps) auto
  qed
qed

lemma getOrCreatePeer_existing:
  "getPeer s i = Some p \<Longrightarrow> getOrCreatePeer s (Some i) = (p, s)"
  by (simp add: getOrCreatePeer_def getPeer_def)

lemma getOrCreatePeer_new:
  "getPeer s i = None \<Longrightarrow>
   getOrCreatePeer s (Some i) =
     (nextPeer s,
      s\<lparr>peerStore := (peerStore s)
           (nextPeer s := (freshPeer (Some i))\<lparr>identifyWhenConnected := False, subscribed := True\<rparr>),
        nextPeer := Suc (nextPeer s), peers := peers s @ [nextPeer s],
        identifiedPeers := mapSet i (nextPeer s) (identifiedPeers s)\<rparr>)"
  by (simp add: getOrCreatePeer_def getPeer_def Let_def updateIdentifiedPeerMap_def
      state_identity_def freshPeer_def)

lemma signalingPeer_ready:
  assumes "\<forall>p. getPeer s src = Some p \<longrightarrow> state_identity s p = Some src"
    and "\<forall>p. getPeer s src = Some p \<longrightarrow> connections_webRtc s p = None"
    and "getOrCreatePeer s (Some src) = (sp, s1)"
  shows "connStore s1 = connStore s \<and> nextConn s1 = nextConn s \<and> trace s1 = trace s \<and>
         localPeer s1 = localPeer s \<and> state_identity s1 sp = Some src \<and>
         connections_webRtc s1 sp = None"
proof (cases "getPeer s src")
  case None
  from getOrCreatePeer_new [OF None] assms(3) show ?thesis
    by (auto simp: state_identity_def connections_webRtc_def liveConn_def freshPeer_def)
next
  case (Some p)
  from getOrCreatePeer_existing [OF Some] assms show ?thesis
    using Some by auto
qed

lemma sameConnections_webRtc:
  "sameConnections s t \<Longrightarrow> connections_webRtc t p = connections_webRtc s p"
  by (simp add: sameConnections_def connections_webRtc_def liveConn_def cong: option.case_cong)

lemma sameConnections_identity:
  "sameConnections s t \<Longrightarrow> state_identity t p = state_identity s p"
  by (simp add: sameConnections_def state_identity_def)


lemma initWebRtcConnection_new:
  "initWebRtcConnection s b p ini = (c, s3) \<Longrightarrow>
   c = nextConn s \<and> nextConn s3 = Suc (nextConn s) \<and>
   ctype (connStore s3 c) = WebRtc \<and> initiator (connStore s3 c) = ini"
  by (auto simp: initWebRtcConnection_def newConnection_def initConnectionHandlers_def
      peer_setWebRtcConnection_def connection_send_def Let_def split: option.splits if_splits)

lemma feedSignal_keeps:
  "nextConn (feedSignal E s c src n b) = nextConn s \<and>
   ctype (connStore (feedSignal E s c src n b) x) = ctype (connStore s x) \<and>
   initiator (connStore (feedSignal E s c src n b) x) = initiator (connStore s x)"
  by (simp add: feedSignal_def connection_signal_def split: option.splits)

lemma signal_to_local_core:
  assumes i2: "\<forall>p. getPeer s src = Some p \<longrightarrow> state_identity s p = Some src"
    and nortc: "\<forall>p. getPeer s src = Some p \<longrightarrow> connections_webRtc s p = None"
    and s': "s' = handleSignalMessage E s sender src (publicIdentity (localPeer s)) nonce boxed"
  shows "(nextConn s' \<noteq> nextConn s \<longrightarrow>
            canInitiateWebRTC E src (publicIdentity (localPeer s)) \<and>
            nextConn s' = Suc (nextConn s) \<and>
            ctype (connStore s' (nextConn s)) = WebRtc \<and>
            \<not> initiator (connStore s' (nextConn s))) \<and>
         (\<not> canInitiateWebRTC E src (publicIdentity (localPeer s)) \<longrightarrow>
            nextConn s' = nextConn s \<and> connStore s' = connStore s \<and>
            \<not> list_ex isConnSignal (emitted s s')) \<and>
         (canInitiateWebRTC E src (publicIdentity (localPeer s)) \<and>
          \<not> shouldRejectDisconnectedPeers s \<longrightarrow> nextConn s' = Suc (nextConn s))"
proof -
  let ?local = "publicIdentity (localPeer s)"
  let ?congested = "shouldRejectDisconnectedPeers s \<and>
      (case getPeer s src of None \<Rightarrow> True | Some peer \<Rightarrow> state_type s peer \<noteq> PEER_CONNECTED)"
  obtain sp s1 where g: "getOrCreatePeer s (Some src) = (sp, s1)"
    by (cases "getOrCreatePeer s (Some src)")
  define s2 where "s2 = addKnownPeerTo s1 sp sender True"
  obtain c s3 where w: "initWebRtcConnection s2 sender sp False = (c, s3)"
    by (cases "initWebRtcConnection s2 sender sp False")
  note ready = signalingPeer_ready [OF i2 nortc g]
  have sc: "sameConnections s1 s2"
    unfolding s2_def by (rule sameConnections_addKnownPeerTo)
  have r2: "connections_webRtc s2 sp = None" "state_identity s2 sp = Some src"
    using ready sameConnections_webRtc [OF sc] sameConnections_identity [OF sc] by simp_all
  have eq: "s' =
      (if ?congested
       then peer_send s sender (Disconnecting ?local (Some src) Congested (1000 * 60 * 5))
       else if \<not> canInitiateWebRTC E src ?local then s2
       else feedSignal E s3 c src nonce boxed)"
    unfolding s' handleSignalMessage_def
    by (simp add: g s2_def [symmetric] r2 w Let_def)
  from sc obtain es where es: "trace s2 = trace s1 @ es" "\<not> list_ex isConnSignal es"
    unfolding sameConnections_def by blast
  have q2: "nextConn s2 = nextConn s" "connStore s2 = connStore s" "emitted s s2 = es"
    using sc ready es by (simp_all add: sameConnections_def emitted_def)
  note new = initWebRtcConnection_new [OF w]
  note keeps = feedSignal_keeps [of E s3 c src nonce boxed]
  show ?thesis
  proof (cases ?congested)
    case True
    then have "s' = peer_send s sender (Disconnecting ?local (Some src) Congested (1000 * 60 * 5))"
      using eq by simp
    then show ?thesis using True by (simp add: peer_send_def emitted_def)
  next
    case notCongested: False
    show ?thesis
    proof (cases "canInitiateWebRTC E src ?local")
      case False
      then have "s' = s2" using eq notCongested by simp
      then show ?thesis using False q2 es(2) by simp
    next
      case True
      then have f: "s' = feedSignal E s3 c src nonce boxed" using eq notCongested by simp
      from new have c: "c = nextConn s2" and n3: "nextConn s3 = Suc (nextConn s2)"
        and t3: "ctype (connStore s3 c) = WebRtc" and i3: "\<not> initiator (connStore s3 c)"
        by blast+
      from keeps [of c] f have k1: "nextConn s' = nextConn s3"
        and k2: "ctype (connStore s' c) = ctype (connStore s3 c)"
        and k3: "initiator (connStore s' c) = initiator (connStore s3 c)"
        by blast+
      have "nextConn s' = Suc (nextConn s)"
        using k1 n3 q2(1) by simp
      moreover have "ctype (connStore s' (nextConn s)) = WebRtc"
        using k2 t3 c q2(1) by simp
      moreover have "\<not> initiator (connStore s' (nextConn s))"
        using k3 i3 c q2(1) by simp
      ultimately show ?thesis using True by simp
    qed
  qed
qed


text \<open>
  Claim C10. A \<open>Signal\<close> addressed to the local peer arrives from a source whose peer, if
  there is one, carries the identity of the source and has no WebRTC connection. Creating
  a connection is taking a fresh reference from \<open>nextConn\<close>. If the handler creates a
  connection, then \<^verbatim>\<open>canInitiateWebRTC(source, local)\<close> holds, and the connection is one
  WebRTC connection that the local peer does not initiate. If \<^verbatim>\<open>canInitiateWebRTC\<close>
  makes the local peer the initiator of the pair (it holds for (local, source), and not
  in both directions), the \<open>Signal\<close> is dropped: no connection is created, the
  connections are untouched and no signalling data is fed. When
  \<^verbatim>\<open>canInitiateWebRTC(source, local)\<close> holds and the node does not reject for
  congestion, the connection is created.
\<close>

theorem signal_creates_connection_only_for_remote_initiator:
  assumes "\<forall>p. getPeer s src = Some p \<longrightarrow> state_identity s p = Some src"
    and "\<forall>p. getPeer s src = Some p \<longrightarrow> connections_webRtc s p = None"
    and "\<not> (canInitiateWebRTC E src (publicIdentity (localPeer s)) \<and>
            canInitiateWebRTC E (publicIdentity (localPeer s)) src)"
    and "s' = handleSignalMessage E s sender src (publicIdentity (localPeer s)) nonce boxed"
  shows "(nextConn s' \<noteq> nextConn s \<longrightarrow>
            canInitiateWebRTC E src (publicIdentity (localPeer s)) \<and>
            nextConn s' = Suc (nextConn s) \<and>
            ctype (connStore s' (nextConn s)) = WebRtc \<and>
            \<not> initiator (connStore s' (nextConn s))) \<and>
         (canInitiateWebRTC E (publicIdentity (localPeer s)) src \<longrightarrow>
            nextConn s' = nextConn s \<and> connStore s' = connStore s \<and>
            \<not> list_ex isConnSignal (emitted s s')) \<and>
         (canInitiateWebRTC E src (publicIdentity (localPeer s)) \<and>
          \<not> shouldRejectDisconnectedPeers s \<longrightarrow> nextConn s' = Suc (nextConn s))"
  using signal_to_local_core [OF assms(1,2,4)] assms(3) by blast

lemma identityLess_idR: "identityLess idM idR" "\<not> identityLess idM idB"
  by (simp_all add: idB_def idM_def idR_def)

lemma demo_not_congested: "\<not> shouldRejectDisconnectedPeers demo"
  by (simp add: shouldRejectDisconnectedPeers_def getPeersWithConnection_def demo_fields)

lemma demo_unknown_peers: "getPeer demo idB = None" "getPeer demo idR = None"
  by (simp_all add: getPeer_def mapGet_def demo_fields idA_def idB_def idZ_def idR_def)

theorem signal_creates_connection_only_for_remote_initiator_witness:
  "nextConn (handleSignalMessage demoImports demo 22 idR idM ''n1'' ''offer'') = 15 \<and>
   connStore (handleSignalMessage demoImports demo 22 idR idM ''n1'' ''offer'') = connStore demo \<and>
   nextConn (handleSignalMessage demoImports demo 22 idB idM ''n1'' ''offer'') = 16"
proof -
  have l: "publicIdentity (localPeer demo) = idM"
    by (simp add: demo_fields demoLocalPeer_def)
  have r: "\<forall>p. getPeer demo idR = Some p \<longrightarrow> state_identity demo p = Some idR"
    "\<forall>p. getPeer demo idR = Some p \<longrightarrow> connections_webRtc demo p = None"
    and b: "\<forall>p. getPeer demo idB = Some p \<longrightarrow> state_identity demo p = Some idB"
    "\<forall>p. getPeer demo idB = Some p \<longrightarrow> connections_webRtc demo p = None"
    by (simp_all add: demo_unknown_peers)
  have k: "canInitiateWebRTC demoImports idM idR" "\<not> canInitiateWebRTC demoImports idR idM"
    "canInitiateWebRTC demoImports idB idM" "\<not> canInitiateWebRTC demoImports idM idB"
    by (simp_all add: demoImports_def identityLess_idR identityLess_idB)
  have xr: "\<not> (canInitiateWebRTC demoImports idR (publicIdentity (localPeer demo)) \<and>
      canInitiateWebRTC demoImports (publicIdentity (localPeer demo)) idR)"
    and xb: "\<not> (canInitiateWebRTC demoImports idB (publicIdentity (localPeer demo)) \<and>
      canInitiateWebRTC demoImports (publicIdentity (localPeer demo)) idB)"
    using k l by simp_all
  note R = signal_creates_connection_only_for_remote_initiator
      [OF r xr, of _ 22 "''n1''" "''offer''", OF refl, unfolded l]
  note B = signal_creates_connection_only_for_remote_initiator
      [OF b xb, of _ 22 "''n1''" "''offer''", OF refl, unfolded l]
  from R k(1) have
    "nextConn (handleSignalMessage demoImports demo 22 idR idM ''n1'' ''offer'') = nextConn demo"
    "connStore (handleSignalMessage demoImports demo 22 idR idM ''n1'' ''offer'') = connStore demo"
    by blast+
  moreover from B k(3) demo_not_congested have
    "nextConn (handleSignalMessage demoImports demo 22 idB idM ''n1'' ''offer'') =
       Suc (nextConn demo)"
    by blast
  ultimately show ?thesis by (simp add: demo_fields(6))
qed


section \<open>The same peer list twice\<close>

lemma demo_peer21:
  "subscribed (peerStore demo 21)" "knownPeers (peerStore demo 21) = []"
  "identity (peerStore demo 21) = Some idA"
  by (simp_all add: demo_fields demoPeers_def freshPeer_def)

lemma addKnownPeerTo_same_identity:
  "state_identity s peer = state_identity s addTo \<Longrightarrow> addKnownPeerTo s peer addTo e = s"
  by (subst addKnownPeerTo.simps) simp

text \<open>A connected peer without known peers sends a list that names itself only: the
  handler overwrites the address and the name of the peer with those of the entry, adds
  no edge, and emits \<^verbatim>\<open>onKnownPeersChanged\<close>.\<close>

lemma self_listing_emits:
  assumes "state_type s p = PEER_CONNECTED" and "\<not> localIsWorker (localPeer s)"
    and "state_identity s p = Some i" and "i \<noteq> publicIdentity (localPeer s)"
    and "getPeer s i = Some p" and "knownPeers (peerStore s p) = []"
    and "subscribed (peerStore s p)"
  shows "handlePeerListMessage s
           [\<lparr>entryIdentity = i, entryName = nm, entryAddress = a, entryPort = n\<rparr>] p =
         effects (updPeer s p (\<lambda>x. x\<lparr>address := a, port := n, name := orNull nm\<rparr>))
           [Emit (OnKnownPeersChanged p)]"
  using assms
  by (simp add: handlePeerListMessage_def newPeerSet_def mapDelete_def addEdgeStep_def
      mapValues_def mapHas_def getOrCreatePeer_existing Let_def peer_setWebSocketAddress_def
      addKnownPeerTo_same_identity state_identity_def peer_emitKnownPeersChanged_def updPeer_def)

text \<open>
  Claim C7 at an input where the code departs from it. In the small network peer 21,
  which is \<open>A\<close> and \<open>CONNECTED\<close>, sends twice the peer list whose one entry is \<open>A\<close>
  itself. The second application leaves the known peers of peer 21 as the first left
  them, and yet emits \<^verbatim>\<open>onKnownPeersChanged\<close> for peer 21 once more: the flag
  \<^verbatim>\<open>changed\<close> is set for an entry that is not among the known peers (line 1278) also
  when \<^verbatim>\<open>addKnownPeerTo\<close> has refused the edge (line 1296).
\<close>

theorem peer_list_twice_emits_again:
  "state_type demo 21 = PEER_CONNECTED \<and>
   state_identity demo 21 = Some idA \<and>
   emitted (handlePeerListMessage demo [demoEntryA] 21)
     (handlePeerListMessage (handlePeerListMessage demo [demoEntryA] 21) [demoEntryA] 21) =
     [Emit (OnKnownPeersChanged 21)] \<and>
   knownPeers (peerStore
     (handlePeerListMessage (handlePeerListMessage demo [demoEntryA] 21) [demoEntryA] 21) 21) =
   knownPeers (peerStore (handlePeerListMessage demo [demoEntryA] 21) 21)"
proof -
  define f where "f = (\<lambda>x::Peer. x\<lparr>address := Some ''10.0.0.1'', port := Some 9033,
    name := orNull None\<rparr>)"
  define s1 where "s1 = effects (updPeer demo 21 f) [Emit (OnKnownPeersChanged 21)]"
  have l: "\<not> localIsWorker (localPeer demo)" "idA \<noteq> publicIdentity (localPeer demo)"
    by (simp_all add: demo_fields demoLocalPeer_def demo_ids_distinct)
  have first: "handlePeerListMessage demo [demoEntryA] 21 = s1"
    unfolding demoEntryA_def s1_def f_def
    by (rule self_listing_emits [OF demo_state_types(1) l(1) demo_identities(1) l(2)
          demo_getPeer(1) demo_peer21(2) demo_peer21(1)])
  have t1: "state_type s1 21 = PEER_CONNECTED"
    using demo_state_types(1) state_type_cong [of s1 demo 21]
    by (simp add: s1_def f_def)
  have p1: "\<not> localIsWorker (localPeer s1)" "state_identity s1 21 = Some idA"
    "idA \<noteq> publicIdentity (localPeer s1)" "getPeer s1 idA = Some 21"
    "knownPeers (peerStore s1 21) = []" "subscribed (peerStore s1 21)"
    using l demo_identities(1) demo_getPeer(1) demo_peer21
    by (simp_all add: s1_def f_def state_identity_def getPeer_def)
  have second: "handlePeerListMessage s1 [demoEntryA] 21 =
      effects (updPeer s1 21 f) [Emit (OnKnownPeersChanged 21)]"
    unfolding demoEntryA_def f_def
    by (rule self_listing_emits [OF t1 p1])
  show ?thesis
    unfolding first second
    using demo_state_types(1) demo_identities(1)
    by (simp add: emitted_def f_def)
qed

end
